theory Spec2Isabelle
  imports Complex_Main "HOL-Library.Sublist"
begin

section \<open>Data model\<close>

text \<open>
  The tables are those of the SQL script of the repository and of the row types of
  \<^verbatim>\<open>frontend/lib/supabase.ts\<close>. A column of type \<^verbatim>\<open>T | null\<close> is a
  \<open>T option\<close>, a \<^verbatim>\<open>number[]\<close> embedding is a \<open>real list\<close>: a JavaScript number
  is read as the real number it denotes, so NaN and the infinities are outside the
  model. The product that gives the score is rounded to a double as the route rounds it
  (\<open>round_to_double\<close> below); the quotient by 100 of the stored score is kept exact. The column \<^verbatim>\<open>parsed_data\<close> (type \<^verbatim>\<open>any\<close>) and the
  time stamps are left out: the match route never reads them. The columns \<^verbatim>\<open>id\<close>
  and \<^verbatim>\<open>created_at\<close> of \<^verbatim>\<open>match_results\<close> are generated by the database
  and are left out too.
\<close>

record JobDescriptionRow =
  jd_id :: string
  title :: string
  description :: string
  requirements :: "string option"
  jd_skills :: "string list option"
  experience_level :: "string option"
  location :: "string option"
  salary_range :: "string option"
  jd_embedding :: "real list option"

text \<open>
  The seven resume fields that both answers of the match route carry, and the full row of
  the table \<^verbatim>\<open>resumes\<close>, which has three more.
\<close>

record ResumeCore =
  r_id :: string
  candidate_name :: "string option"
  email :: "string option"
  file_name :: string
  experience_years :: "int option"
  skills :: "string list option"
  education :: "string option"

record ResumeRow = ResumeCore +
  phone :: "string option"
  raw_text :: string
  embedding :: "real list option"

text \<open>
  Score, matched skills and highlights occur in three objects of the route: the result
  sent to the caller, the object sent to \<^verbatim>\<open>insert\<close>, and the result received from
  the backend. The table row adds \<^verbatim>\<open>is_shortlisted BOOLEAN DEFAULT FALSE\<close>.
\<close>

record Scored =
  similarity_score :: real
  matched_skills :: "string list"
  highlights :: "string list"

record MatchInsert = Scored +
  job_description_id :: string
  resume_id :: string

record MatchResultRow = MatchInsert +
  is_shortlisted :: bool

text \<open>
  The \<^verbatim>\<open>resume\<close> member of a result in the answer: the whole row in the frontend
  path, an object of seven fields in the backend path.
\<close>

datatype resume_json = Row ResumeRow | Formatted ResumeCore

fun json_id :: "resume_json \<Rightarrow> string" where
  "json_id (Row r) = r_id r"
| "json_id (Formatted c) = r_id c"

record MatchResult = Scored +
  resume :: resume_json

text \<open>An entry of \<^verbatim>\<open>backendData.results\<close> (typed \<^verbatim>\<open>any\<close> in the source).\<close>

record BackendResult = Scored +
  b_resume_id :: string
  b_candidate_name :: "string option"
  b_email :: "string option"
  b_file_name :: string
  b_experience_years :: "int option"
  b_skills :: "string list option"
  b_education :: "string option"

record BackendData =
  success :: bool
  message :: "string option"
  results :: "BackendResult list"

record database =
  job_descriptions :: "JobDescriptionRow list"
  resumes :: "ResumeRow list"
  match_results :: "MatchResultRow list"

text \<open>
  What the collaborators answer during one request: the error of each of the four store
  calls (\<open>None\<close> when the store serves the call) and the outcome of the
  \<^verbatim>\<open>fetch\<close> of the backend's \<^verbatim>\<open>/match\<close>.
\<close>

datatype fetch_outcome =
    Fetch_rejected string
  | Http_not_ok
  | Http_ok_no_json string
  | Http_ok BackendData

record collaborators =
  jd_error :: "string option"
  resumes_error :: "string option"
  backend :: fetch_outcome
  delete_error :: "string option"
  insert_error :: "string option"

datatype console_entry = Console_warn string | Console_error string string

datatype response = Json_results "MatchResult list" | Json_error string nat

record outcome =
  response :: response
  db_after :: database
  console :: "console_entry list"

section \<open>JavaScript primitives used by the route\<close>

text \<open>
  \<^verbatim>\<open>String.prototype.toLowerCase\<close> on the ASCII letters. Strings are byte lists
  here, and bytes outside ASCII are left as they are, where JavaScript lower-cases every
  cased letter: what is stated about the outcome of the case folding is stated for ASCII
  strings.
\<close>

definition lower_char :: "char \<Rightarrow> char" where
  "lower_char c =
     (case map_of (zip ''ABCDEFGHIJKLMNOPQRSTUVWXYZ'' ''abcdefghijklmnopqrstuvwxyz'') c of
        Some l \<Rightarrow> l
      | None \<Rightarrow> c)"

definition toLowerCase :: "string \<Rightarrow> string" where
  "toLowerCase s = map lower_char s"


text \<open>\<^verbatim>\<open>s.includes(t)\<close>: \<open>t\<close> occurs in \<open>s\<close> as a contiguous run; the empty string
  occurs in every string.\<close>

fun str_includes :: "string \<Rightarrow> string \<Rightarrow> bool" where
  "str_includes [] t = (t = [])"
| "str_includes (c # s) t = (prefix t (c # s) \<or> str_includes s t)"

text \<open>
  The arithmetic of JavaScript is that of IEEE 754 doubles: the result of an operation is
  the exact result rounded to the nearest double, a tie going to the even significand.
  \<open>round_to_double\<close> is this rounding on the real line: 53 significant bits, the
  exponent of the leading bit at least \<open>-1022\<close> (below, the subnormal numbers, spaced
  \<open>2 ^ -1074\<close> apart). Overflow to infinity is outside the model.
\<close>

definition pow2 :: "int \<Rightarrow> real" where
  "pow2 k = (if 0 \<le> k then 2 ^ nat k else 1 / 2 ^ nat (- k))"

text \<open>The exponent of the leading bit of a positive real: \<open>2 ^ e \<le> x < 2 ^ (e + 1)\<close>.\<close>

function floor_log2 :: "real \<Rightarrow> int" where
  "floor_log2 x =
     (if x \<le> 0 then 0
      else if 2 \<le> x then floor_log2 (x / 2) + 1
      else if x < 1 then floor_log2 (x * 2) - 1
      else 0)"
  by pat_completeness auto
termination
proof (relation "measure (\<lambda>x. 2 * nat \<lceil>1 / x\<rceil> + nat \<lfloor>x\<rfloor>)")
  show "wf (measure (\<lambda>x::real. 2 * nat \<lceil>1 / x\<rceil> + nat \<lfloor>x\<rfloor>))"
    by simp
next
  fix x :: real
  assume a: "\<not> x \<le> 0" "2 \<le> x"
  have 1: "\<lceil>1 / x\<rceil> = 1" using a by (simp add: ceiling_eq_iff)
  have 2: "\<lceil>1 / (x / 2)\<rceil> = 1" using a by (simp add: ceiling_eq_iff)
  have "x / 2 \<le> x - 1" using a by simp
  then have "\<lfloor>x / 2\<rfloor> \<le> \<lfloor>x - 1\<rfloor>" by (rule floor_mono)
  then have 3: "\<lfloor>x / 2\<rfloor> < \<lfloor>x\<rfloor>" by simp
  have 4: "0 < \<lfloor>x\<rfloor>" using a by simp
  have "nat \<lfloor>x / 2\<rfloor> < nat \<lfloor>x\<rfloor>" using 3 4 by linarith
  then show "(x / 2, x) \<in> measure (\<lambda>x. 2 * nat \<lceil>1 / x\<rceil> + nat \<lfloor>x\<rfloor>)"
    unfolding in_measure 1 2 by simp
next
  fix x :: real
  assume a: "\<not> x \<le> 0" "\<not> 2 \<le> x" "x < 1"
  have 1: "\<lfloor>x\<rfloor> = 0" using a by (simp add: floor_eq_iff)
  have 2: "\<lfloor>x * 2\<rfloor> \<le> 1" using a by (simp add: floor_le_iff)
  have y: "1 < 1 / x" using a by simp
  have h: "1 / (x * 2) = (1 / x) / 2" by simp
  have "(1 / x) / 2 \<le> of_int \<lceil>1 / x\<rceil> / 2" by (simp add: divide_right_mono)
  moreover have "of_int \<lceil>1 / x\<rceil> / (2::real) \<le> of_int (\<lceil>1 / x\<rceil> - 1)"
  proof -
    have "2 \<le> \<lceil>1 / x\<rceil>" using y by linarith
    then have "(2::real) \<le> of_int \<lceil>1 / x\<rceil>" by linarith
    then show ?thesis by simp
  qed
  ultimately have "1 / (x * 2) \<le> of_int (\<lceil>1 / x\<rceil> - 1)" unfolding h by linarith
  then have 3: "\<lceil>1 / (x * 2)\<rceil> \<le> \<lceil>1 / x\<rceil> - 1" by (simp only: ceiling_le_iff)
  have 4: "0 < \<lceil>1 / (x * 2)\<rceil>" using a by (simp add: less_ceiling_iff)
  have "2 * nat \<lceil>1 / (x * 2)\<rceil> + nat \<lfloor>x * 2\<rfloor> < 2 * nat \<lceil>1 / x\<rceil> + nat \<lfloor>x\<rfloor>"
    using 1 2 3 4 by linarith
  then show "(x * 2, x) \<in> measure (\<lambda>x. 2 * nat \<lceil>1 / x\<rceil> + nat \<lfloor>x\<rfloor>)"
    by simp
qed

declare floor_log2.simps [simp del]

text \<open>The nearest integer, a tie going to the even one.\<close>

definition roundTiesToEven :: "real \<Rightarrow> int" where
  "roundTiesToEven y =
     (let f = \<lfloor>y\<rfloor> in
      if y - of_int f < 1 / 2 then f
      else if 1 / 2 < y - of_int f then f + 1
      else if even f then f else f + 1)"

definition exponent :: "real \<Rightarrow> int" where
  "exponent x = max (- 1022) (floor_log2 \<bar>x\<bar>)"

definition round_to_double :: "real \<Rightarrow> real" where
  "round_to_double x =
     (if x = 0 then 0
      else pow2 (exponent x - 52) * of_int (roundTiesToEven (x / pow2 (exponent x - 52))))"

text \<open>\<^verbatim>\<open>Math.round\<close>: the nearest integer, a half rounded towards plus infinity.\<close>

definition Math_round :: "real \<Rightarrow> real" where
  "Math_round x = of_int \<lfloor>x + 1 / 2\<rfloor>"

text \<open>The decimal numeral a template literal prints for an integer.\<close>

function show_nat :: "nat \<Rightarrow> string" where
  "show_nat n =
     (if n < 10 then [''0123456789'' ! n]
      else show_nat (n div 10) @ [''0123456789'' ! (n mod 10)])"
  by pat_completeness auto
termination
  by (relation "measure (\<lambda>n. n)") auto

declare show_nat.simps [simp del]

definition show_int :: "int \<Rightarrow> string" where
  "show_int i = (if i < 0 then CHR ''-'' # show_nat (nat (- i)) else show_nat (nat i))"

section \<open>The store\<close>

text \<open>
  \<^verbatim>\<open>from("job_descriptions").select("*").eq("id", jobDescriptionId).single()\<close>:
  the row when exactly one row has the id, an error otherwise.
\<close>

definition select_single :: "collaborators \<Rightarrow> database \<Rightarrow> string \<Rightarrow> string + JobDescriptionRow" where
  "select_single env db jobDescriptionId =
     (case jd_error env of
        Some e \<Rightarrow> Inl e
      | None \<Rightarrow>
          (case filter (\<lambda>j. jd_id j = jobDescriptionId) (job_descriptions db) of
             [j] \<Rightarrow> Inr j
           | _ \<Rightarrow> Inl ''JSON object requested, multiple (or no) rows returned''))"

text \<open>
  \<^verbatim>\<open>from("match_results").delete().eq("job_description_id", jobDescriptionId)\<close>.
  The route awaits the call and ignores its answer, so a delete the store refuses leaves
  the table as it was and the route goes on.
\<close>

definition delete_eq :: "collaborators \<Rightarrow> string \<Rightarrow> MatchResultRow list \<Rightarrow> MatchResultRow list" where
  "delete_eq env jobDescriptionId tbl =
     (case delete_error env of
        Some e \<Rightarrow> tbl
      | None \<Rightarrow> filter (\<lambda>r. job_description_id r \<noteq> jobDescriptionId) tbl)"

text \<open>
  \<^verbatim>\<open>from("match_results").insert(matchInserts)\<close>: one statement, so it stores all
  rows or none. The table declares \<^verbatim>\<open>UNIQUE(job_description_id, resume_id)\<close>; a
  batch that would break it is refused.
\<close>

definition pair_key :: "'a MatchInsert_scheme \<Rightarrow> string \<times> string" where
  "pair_key r = (job_description_id r, resume_id r)"

definition unique_pairs :: "MatchResultRow list \<Rightarrow> bool" where
  "unique_pairs tbl = distinct (map pair_key tbl)"

definition with_defaults :: "MatchInsert \<Rightarrow> MatchResultRow" where
  "with_defaults i = MatchInsert.extend i (MatchResultRow.fields False)"

definition insert_rows ::
  "collaborators \<Rightarrow> MatchInsert list \<Rightarrow> MatchResultRow list \<Rightarrow> string option \<times> MatchResultRow list" where
  "insert_rows env matchInserts tbl =
     (case insert_error env of
        Some e \<Rightarrow> (Some e, tbl)
      | None \<Rightarrow>
          (if unique_pairs (tbl @ map with_defaults matchInserts)
           then (None, tbl @ map with_defaults matchInserts)
           else (Some ''duplicate key value violates unique constraint'', tbl)))"

section \<open>The match route\<close>

text \<open>
  The filter of the frontend matching (lines 194 to 202 of the route):
  \<^verbatim>\<open>resumeSkills.filter((skill) => jdSkills.some((jdSkill) =>
     jdSkill.toLowerCase().includes(skill.toLowerCase()) ||
     skill.toLowerCase().includes(jdSkill.toLowerCase())))\<close>
\<close>

definition matchedSkills :: "string list \<Rightarrow> string list \<Rightarrow> string list" where
  "matchedSkills jdSkills resumeSkills =
     filter (\<lambda>skill. list_ex (\<lambda>jdSkill.
         str_includes (toLowerCase jdSkill) (toLowerCase skill) \<or>
         str_includes (toLowerCase skill) (toLowerCase jdSkill)) jdSkills) resumeSkills"

text \<open>
  The three highlights. \<^verbatim>\<open>resume.experience_years || 0\<close> is 0 for
  \<^verbatim>\<open>null\<close>; \<^verbatim>\<open>resume.education || "Education not specified"\<close> takes the default
  for \<^verbatim>\<open>null\<close> and for the empty string, both falsy.
\<close>

definition make_highlights :: "ResumeRow \<Rightarrow> string list \<Rightarrow> string list" where
  "make_highlights resumeRow matched =
     [ show_int (case experience_years resumeRow of None \<Rightarrow> 0 | Some n \<Rightarrow> n) @ '' years of experience'',
       show_nat (length matched) @ '' matching skills'',
       (case education resumeRow of
          None \<Rightarrow> ''Education not specified''
        | Some e \<Rightarrow> if e = [] then ''Education not specified'' else e) ]"

text \<open>
  The callback of \<^verbatim>\<open>resumes.map\<close>: \<open>None\<close> is the \<^verbatim>\<open>null\<close> it returns when
  an embedding is missing. \<open>cosineSimilarity\<close> is the function of that name imported
  from the package \<^verbatim>\<open>ai\<close>, a parameter here and taken as total: the column type
  \<^verbatim>\<open>VECTOR(1536)\<close> gives all embeddings one length.
\<close>

definition match_resume ::
  "(real list \<Rightarrow> real list \<Rightarrow> real) \<Rightarrow> JobDescriptionRow \<Rightarrow> ResumeRow \<Rightarrow> MatchResult option" where
  "match_resume cosineSimilarity jobDescription resumeRow =
     (case (jd_embedding jobDescription, embedding resumeRow) of
        (Some je, Some re) \<Rightarrow>
          (let similarity = cosineSimilarity je re;
               score = Math_round (round_to_double (similarity * 100));
               jdSkills = (case jd_skills jobDescription of None \<Rightarrow> [] | Some ss \<Rightarrow> ss);
               resumeSkills = (case skills resumeRow of None \<Rightarrow> [] | Some ss \<Rightarrow> ss);
               matched = matchedSkills jdSkills resumeSkills
           in Some \<lparr> similarity_score = score, matched_skills = matched,
                     highlights = make_highlights resumeRow matched, resume = Row resumeRow \<rparr>)
      | _ \<Rightarrow> None)"

text \<open>
  \<^verbatim>\<open>.filter(Boolean).sort((a, b) => b.similarity_score - a.similarity_score)\<close>.
  \<^verbatim>\<open>Array.prototype.sort\<close> is stable, and a stable sort has one result only, so the
  insertion sort of the library stands for it.
\<close>

definition frontend_matching ::
  "(real list \<Rightarrow> real list \<Rightarrow> real) \<Rightarrow> JobDescriptionRow \<Rightarrow> ResumeRow list \<Rightarrow> MatchResult list" where
  "frontend_matching cosineSimilarity jobDescription rs =
     sort_key (\<lambda>m. - similarity_score m)
       (List.map_filter (match_resume cosineSimilarity jobDescription) rs)"

definition frontend_inserts :: "string \<Rightarrow> MatchResult list \<Rightarrow> MatchInsert list" where
  "frontend_inserts jobDescriptionId matchResults =
     map (\<lambda>result. \<lparr> similarity_score = similarity_score result / 100,
                      matched_skills = matched_skills result,
                      highlights = highlights result,
                      job_description_id = jobDescriptionId,
                      resume_id = json_id (resume result) \<rparr>) matchResults"

definition backend_inserts :: "string \<Rightarrow> BackendResult list \<Rightarrow> MatchInsert list" where
  "backend_inserts jobDescriptionId rs =
     map (\<lambda>result. \<lparr> similarity_score = similarity_score result / 100,
                      matched_skills = matched_skills result,
                      highlights = highlights result,
                      job_description_id = jobDescriptionId,
                      resume_id = b_resume_id result \<rparr>) rs"

definition formattedResults :: "BackendResult list \<Rightarrow> MatchResult list" where
  "formattedResults rs =
     map (\<lambda>result. \<lparr> similarity_score = similarity_score result,
                      matched_skills = matched_skills result,
                      highlights = highlights result,
                      resume = Formatted \<lparr> r_id = b_resume_id result,
                                           candidate_name = b_candidate_name result,
                                           email = b_email result,
                                           file_name = b_file_name result,
                                           experience_years = b_experience_years result,
                                           skills = b_skills result,
                                           education = b_education result \<rparr> \<rparr>) rs"

text \<open>
  Delete the stored matches of the job description, insert the new ones, and log an
  insert error on the console (the same five lines in both paths of the route).
\<close>

definition store_matches ::
  "collaborators \<Rightarrow> string \<Rightarrow> MatchInsert list \<Rightarrow> database \<Rightarrow> database \<times> console_entry list" where
  "store_matches env jobDescriptionId matchInserts db =
     (let deleted = delete_eq env jobDescriptionId (match_results db);
          (insertError, stored) = insert_rows env matchInserts deleted
      in (db\<lparr>match_results := stored\<rparr>,
          (case insertError of
             None \<Rightarrow> []
           | Some e \<Rightarrow> [Console_error ''Error storing match results:'' e])))"

text \<open>
  The handler \<^verbatim>\<open>POST\<close> of the match route, applied to the
  \<^verbatim>\<open>jobDescriptionId\<close> of the request body. An exception inside the
  \<^verbatim>\<open>try\<close> block (a rejected \<^verbatim>\<open>fetch\<close>, a body that is not JSON) ends in the
  \<^verbatim>\<open>catch\<close> clause, which answers 500. Only a status that is not OK leads to the
  frontend matching.
\<close>

definition POST ::
  "(real list \<Rightarrow> real list \<Rightarrow> real) \<Rightarrow> collaborators \<Rightarrow> database \<Rightarrow> string \<Rightarrow> outcome" where
  "POST cosineSimilarity env db jobDescriptionId =
     (case select_single env db jobDescriptionId of
        Inl jdError \<Rightarrow>
          \<lparr> response = Json_error ''Job description not found'' 404, db_after = db, console = [] \<rparr>
      | Inr jobDescription \<Rightarrow>
          (case resumes_error env of
             Some msg \<Rightarrow> \<lparr> response = Json_error msg 500, db_after = db, console = [] \<rparr>
           | None \<Rightarrow>
               (case backend env of
                  Fetch_rejected e \<Rightarrow>
                    \<lparr> response = Json_error ''Failed to perform matching'' 500, db_after = db,
                      console = [Console_error ''Error performing matching:'' e] \<rparr>
                | Http_not_ok \<Rightarrow>
                    (let matchResults = frontend_matching cosineSimilarity jobDescription (resumes db);
                         (db', logged) = store_matches env jobDescriptionId
                                           (frontend_inserts jobDescriptionId matchResults) db
                     in \<lparr> response = Json_results matchResults, db_after = db',
                          console = Console_warn ''Backend not available, using frontend matching'' # logged \<rparr>)
                | Http_ok_no_json e \<Rightarrow>
                    \<lparr> response = Json_error ''Failed to perform matching'' 500, db_after = db,
                      console = [Console_error ''Error performing matching:'' e] \<rparr>
                | Http_ok backendData \<Rightarrow>
                    (if \<not> success backendData then
                       \<lparr> response = Json_error
                           (case message backendData of
                              None \<Rightarrow> ''Matching failed''
                            | Some m \<Rightarrow> if m = [] then ''Matching failed'' else m) 500,
                         db_after = db, console = [] \<rparr>
                     else
                       (let (db', logged) = store_matches env jobDescriptionId
                                              (backend_inserts jobDescriptionId (results backendData)) db
                        in \<lparr> response = Json_results (formattedResults (results backendData)),
                             db_after = db', console = logged \<rparr>)))))"

section \<open>Cosine similarity and sample data\<close>

text \<open>
  Modelled from the spec: the function \<^verbatim>\<open>cosineSimilarity\<close> is imported from the
  package \<^verbatim>\<open>ai\<close> and is not part of the repository. The glossary defines cosine
  similarity as the dot product of two vectors divided by the product of their
  magnitudes, and section 4.3 defines it as 0 when a vector is all zero. The route takes
  the function as a parameter; this definition instantiates the parameter on the sample
  data below.
\<close>

definition cosine_similarity :: "real list \<Rightarrow> real list \<Rightarrow> real" where
  "cosine_similarity a b =
     (let dotProduct = (\<lambda>x y. sum_list (map2 (*) x y));
          magnitude = (\<lambda>x. sqrt (dotProduct x x))
      in if magnitude a = 0 \<or> magnitude b = 0 then 0
         else dotProduct a b / (magnitude a * magnitude b))"

text \<open>
  A job description, resumes, answers of the collaborators and stored rows on which the
  theorems below are instantiated.
\<close>

definition sample_jd :: JobDescriptionRow where
  "sample_jd =
     \<lparr> jd_id = ''jd-1'', title = ''Backend Engineer'', description = ''Python and SQL'',
       requirements = None, jd_skills = Some [''Python''], experience_level = None,
       location = None, salary_range = None, jd_embedding = Some [1, 0] \<rparr>"

definition sample_resume :: "string \<Rightarrow> real list option \<Rightarrow> ResumeRow" where
  "sample_resume i e =
     \<lparr> r_id = i, candidate_name = None, email = None, file_name = ''cv.pdf'',
       experience_years = Some 6, skills = Some [''Python'', ''python'', ''SQL''],
       education = None, phone = None, raw_text = ''Python developer'', embedding = e \<rparr>"

definition sample_env :: "fetch_outcome \<Rightarrow> string option \<Rightarrow> collaborators" where
  "sample_env b ie =
     \<lparr> jd_error = None, resumes_error = None, backend = b, delete_error = None,
       insert_error = ie \<rparr>"

definition sample_db :: "JobDescriptionRow \<Rightarrow> ResumeRow list \<Rightarrow> MatchResultRow list \<Rightarrow> database" where
  "sample_db jd rs tbl = \<lparr> job_descriptions = [jd], resumes = rs, match_results = tbl \<rparr>"

definition sample_row :: "string \<Rightarrow> string \<Rightarrow> bool \<Rightarrow> MatchResultRow" where
  "sample_row j r s =
     \<lparr> similarity_score = 1 / 2, matched_skills = [], highlights = [],
       job_description_id = j, resume_id = r, is_shortlisted = s \<rparr>"

definition result_list :: "response \<Rightarrow> MatchResult list" where
  "result_list r = (case r of Json_results ms \<Rightarrow> ms | Json_error e st \<Rightarrow> [])"

definition sample_backend_result :: "string \<Rightarrow> real \<Rightarrow> BackendResult" where
  "sample_backend_result i sc =
     \<lparr> similarity_score = sc, matched_skills = [''Python''], highlights = [''6 years of experience''],
       b_resume_id = i, b_candidate_name = None, b_email = None, b_file_name = ''cv.pdf'',
       b_experience_years = Some 6, b_skills = Some [''Python''], b_education = None \<rparr>"

definition sample_data :: "BackendResult list \<Rightarrow> BackendData" where
  "sample_data rs = \<lparr> success = True, message = None, results = rs \<rparr>"

section \<open>Facts about the route\<close>

subsection \<open>The two paths that answer with results\<close>

lemma POST_fallback:
  assumes "select_single env db jid = Inr jd" "resumes_error env = None" "backend env = Http_not_ok"
  shows "POST cs env db jid =
     \<lparr> response = Json_results (frontend_matching cs jd (resumes db)),
       db_after = fst (store_matches env jid (frontend_inserts jid (frontend_matching cs jd (resumes db))) db),
       console = Console_warn ''Backend not available, using frontend matching'' #
                 snd (store_matches env jid (frontend_inserts jid (frontend_matching cs jd (resumes db))) db) \<rparr>"
  using assms by (simp add: POST_def Let_def split: prod.split)

lemma POST_backend:
  assumes "select_single env db jid = Inr jd" "resumes_error env = None" "backend env = Http_ok data"
     "success data"
  shows "POST cs env db jid =
     \<lparr> response = Json_results (formattedResults (results data)),
       db_after = fst (store_matches env jid (backend_inserts jid (results data)) db),
       console = snd (store_matches env jid (backend_inserts jid (results data)) db) \<rparr>"
  using assms by (simp add: POST_def Let_def split: prod.split)

lemma select_single_upd [simp]:
  "select_single env (db\<lparr>match_results := t\<rparr>) jid = select_single env db jid"
  "select_single env (db\<lparr>resumes := rs\<rparr>) jid = select_single env db jid"
  by (simp_all add: select_single_def split: option.split)

lemma select_single_absent:
  "jobDescriptionId \<notin> jd_id ` set (job_descriptions db) \<Longrightarrow>
   \<exists>e. select_single env db jobDescriptionId = Inl e"
proof -
  assume a: "jobDescriptionId \<notin> jd_id ` set (job_descriptions db)"
  have "filter (\<lambda>j. jd_id j = jobDescriptionId) (job_descriptions db) = []"
    using a by (auto simp: filter_empty_conv)
  then show ?thesis
    by (simp add: select_single_def split: option.split)
qed

subsection \<open>Rounding to a double\<close>

lemma pow2_pos [simp]: "0 < pow2 k"
  by (simp add: pow2_def)

lemma pow2_powr: "pow2 k = 2 powr (of_int k)"
  by (simp add: pow2_def powr_real_of_int inverse_eq_divide)

lemma pow2_add: "pow2 (k + l) = pow2 k * pow2 l"
  by (simp add: pow2_powr powr_add)

lemma pow2_one: "pow2 1 = 2"
  by (simp add: pow2_def)

lemma pow2_Suc: "pow2 (k + 1) = 2 * pow2 k"
  by (simp add: pow2_add pow2_one)

lemma pow2_pred: "pow2 (k - 1) = pow2 k / 2"
  using pow2_Suc[of "k - 1"] by simp

lemma pow2_mono: "k \<le> l \<Longrightarrow> pow2 k \<le> pow2 l"
  by (simp add: pow2_powr)

lemma pow2_diff: "pow2 (k - l) = pow2 k / pow2 l"
  by (simp add: pow2_powr powr_diff)

lemma pow2_nat: "0 \<le> k \<Longrightarrow> pow2 k = of_int (2 ^ nat k)"
  by (simp add: pow2_def)

lemma floor_log2_bounds:
  "0 < x \<Longrightarrow> pow2 (floor_log2 x) \<le> x \<and> x < 2 * pow2 (floor_log2 x)"
proof (induction x rule: floor_log2.induct)
  case (1 x)
  show ?case
  proof (cases "2 \<le> x")
    case True
    then have e: "floor_log2 x = floor_log2 (x / 2) + 1"
      using 1(3) by (subst floor_log2.simps) simp
    have "pow2 (floor_log2 (x / 2)) \<le> x / 2 \<and> x / 2 < 2 * pow2 (floor_log2 (x / 2))"
      using 1(1) True 1(3) by simp
    then show ?thesis unfolding e pow2_Suc by simp
  next
    case False
    show ?thesis
    proof (cases "x < 1")
      case True
      then have e: "floor_log2 x = floor_log2 (x * 2) - 1"
        using 1(3) False by (subst floor_log2.simps) simp
      have "pow2 (floor_log2 (x * 2)) \<le> x * 2 \<and> x * 2 < 2 * pow2 (floor_log2 (x * 2))"
        using 1(2) True False 1(3) by simp
      then show ?thesis unfolding e pow2_pred by simp
    next
      case nl: False
      then have e: "floor_log2 x = 0"
        using 1(3) False by (subst floor_log2.simps) simp
      show ?thesis unfolding e using False nl by (simp add: pow2_def)
    qed
  qed
qed

lemma floor_log2_unique:
  assumes "pow2 k \<le> x" "x < 2 * pow2 k"
  shows "floor_log2 x = k"
proof -
  have x: "0 < x" using assms(1) pow2_pos[of k] by linarith
  note b = floor_log2_bounds[OF x]
  have "\<not> floor_log2 x < k"
  proof
    assume "floor_log2 x < k"
    then have "pow2 (floor_log2 x + 1) \<le> pow2 k" by (intro pow2_mono) simp
    then show False using b assms(1) by (simp add: pow2_Suc)
  qed
  moreover have "\<not> k < floor_log2 x"
  proof
    assume "k < floor_log2 x"
    then have "pow2 (k + 1) \<le> pow2 (floor_log2 x)" by (intro pow2_mono) simp
    then show False using b assms(2) by (simp add: pow2_Suc)
  qed
  ultimately show ?thesis by simp
qed

lemma floor_log2_mono:
  assumes "0 < x" "x \<le> y"
  shows "floor_log2 x \<le> floor_log2 y"
proof (rule ccontr)
  assume "\<not> floor_log2 x \<le> floor_log2 y"
  then have "pow2 (floor_log2 y + 1) \<le> pow2 (floor_log2 x)" by (intro pow2_mono) simp
  moreover have "0 < y" using assms by simp
  ultimately show False
    using floor_log2_bounds[OF assms(1)] floor_log2_bounds[OF \<open>0 < y\<close>] assms(2)
    by (simp add: pow2_Suc)
qed

lemma pow2_nonneg [simp]: "0 \<le> pow2 k"
  using pow2_pos[of k] by linarith

lemma pow2_neq0 [simp]: "pow2 k \<noteq> 0"
  using pow2_pos[of k] by linarith

lemma rte_of_int [simp]: "roundTiesToEven (of_int n) = n"
  by (simp add: roundTiesToEven_def)

lemma rte_floor_le: "\<lfloor>y\<rfloor> \<le> roundTiesToEven y"
  by (simp add: roundTiesToEven_def Let_def)

lemma rte_le_floor_Suc: "roundTiesToEven y \<le> \<lfloor>y\<rfloor> + 1"
  by (simp add: roundTiesToEven_def Let_def)

lemma rte_ge_int:
  assumes "of_int n \<le> y"
  shows "n \<le> roundTiesToEven y"
proof -
  have "n \<le> \<lfloor>y\<rfloor>" using assms by (simp add: le_floor_iff)
  then show ?thesis using rte_floor_le[of y] by linarith
qed

lemma rte_le_int:
  assumes "y \<le> of_int n"
  shows "roundTiesToEven y \<le> n"
proof (cases "y = of_int n")
  case True
  then show ?thesis by simp
next
  case False
  then have "y < of_int n" using assms by simp
  then have "\<lfloor>y\<rfloor> < n" by (simp add: floor_less_iff)
  then show ?thesis using rte_le_floor_Suc[of y] by linarith
qed

lemma rte_mono:
  assumes "y \<le> z"
  shows "roundTiesToEven y \<le> roundTiesToEven z"
proof (cases "\<lfloor>y\<rfloor> = \<lfloor>z\<rfloor>")
  case True
  have "y - of_int \<lfloor>z\<rfloor> \<le> z - of_int \<lfloor>z\<rfloor>" using assms by simp
  then show ?thesis
    unfolding roundTiesToEven_def Let_def True by auto
next
  case False
  then have "\<lfloor>y\<rfloor> < \<lfloor>z\<rfloor>" using floor_mono[OF assms] by simp
  then show ?thesis
    using rte_le_floor_Suc[of y] rte_floor_le[of z] by linarith
qed

lemma rte_minus: "roundTiesToEven (- y) = - roundTiesToEven y"
proof (cases "y = of_int \<lfloor>y\<rfloor>")
  case True
  then obtain n where "y = of_int n" ..
  then have "- y = of_int (- n)" by simp
  then show ?thesis using \<open>y = of_int n\<close> by (simp only: rte_of_int)
next
  case False
  then have "of_int \<lfloor>y\<rfloor> \<noteq> y" by (rule not_sym)
  then have lt: "of_int \<lfloor>y\<rfloor> < y" using of_int_floor_le[of y] by linarith
  have "\<lfloor>- y\<rfloor> = - \<lfloor>y\<rfloor> - 1"
    using lt by (simp add: floor_eq_iff) linarith
  then have f: "\<lfloor>- y\<rfloor> = - \<lfloor>y\<rfloor> - 1" .
  have fr: "- y - of_int (- \<lfloor>y\<rfloor> - 1) = 1 - (y - of_int \<lfloor>y\<rfloor>)" by simp
  show ?thesis
    unfolding roundTiesToEven_def Let_def f fr
    by (auto simp: algebra_simps)
qed

lemma exponent_minus [simp]: "exponent (- x) = exponent x"
  by (simp add: exponent_def)

lemma round_to_double_minus: "round_to_double (- x) = - round_to_double x"
  by (simp add: round_to_double_def rte_minus)

lemma round_to_double_pos_bounds:
  assumes "0 < x"
  shows "0 \<le> round_to_double x"
    and "round_to_double x \<le> 2 * pow2 (exponent x)"
    and "- 1022 < exponent x \<Longrightarrow> pow2 (exponent x) \<le> round_to_double x"
proof -
  let ?e = "exponent x"
  let ?u = "pow2 (?e - 52)"
  let ?q = "x / ?u"
  have rd: "round_to_double x = ?u * of_int (roundTiesToEven ?q)"
    using assms by (simp add: round_to_double_def)
  have ax: "\<bar>x\<bar> = x" using assms by simp
  have fl: "floor_log2 x \<le> ?e" by (simp add: exponent_def ax)
  have "x < 2 * pow2 (floor_log2 x)" using floor_log2_bounds[OF assms] by simp
  also have "\<dots> \<le> 2 * pow2 ?e" using pow2_mono[OF fl] by simp
  finally have up: "x < 2 * pow2 ?e" .
  have u52: "pow2 ?e = ?u * of_int (2 ^ 52)"
    using pow2_add[of "?e - 52" 52] by (simp add: pow2_def)
  have "0 \<le> ?q" using assms by simp
  then have "0 \<le> roundTiesToEven ?q" using rte_ge_int[of 0 ?q] by simp
  then show "0 \<le> round_to_double x" unfolding rd by simp
  have "?q \<le> of_int (2 ^ 53)"
  proof -
    have "x \<le> ?u * of_int (2 ^ 53)" using up unfolding u52 by simp
    then show ?thesis by (simp add: pos_divide_le_eq mult.commute)
  qed
  then have "roundTiesToEven ?q \<le> 2 ^ 53" by (rule rte_le_int)
  then have "of_int (roundTiesToEven ?q) \<le> (of_int (2 ^ 53) :: real)" by (simp only: of_int_le_iff)
  then have "?u * of_int (roundTiesToEven ?q) \<le> ?u * of_int (2 ^ 53)"
    by (intro mult_left_mono) simp_all
  then show "round_to_double x \<le> 2 * pow2 ?e" unfolding rd u52 by simp
  show "pow2 ?e \<le> round_to_double x" if "- 1022 < ?e"
  proof -
    have "?e = floor_log2 x" using that by (simp add: exponent_def ax max_def split: if_splits)
    then have "pow2 ?e \<le> x" using floor_log2_bounds[OF assms] by simp
    then have "?u * of_int (2 ^ 52) \<le> x" unfolding u52 .
    then have "of_int (2 ^ 52) \<le> ?q" by (simp add: pos_le_divide_eq mult.commute)
    then have "2 ^ 52 \<le> roundTiesToEven ?q" by (rule rte_ge_int)
    then have "(of_int (2 ^ 52) :: real) \<le> of_int (roundTiesToEven ?q)" by (simp only: of_int_le_iff)
    then have "?u * of_int (2 ^ 52) \<le> ?u * of_int (roundTiesToEven ?q)"
      by (intro mult_left_mono) simp_all
    then show ?thesis unfolding rd u52 .
  qed
qed

lemma exponent_mono:
  assumes "0 < x" "x \<le> y"
  shows "exponent x \<le> exponent y"
  using floor_log2_mono[OF assms] assms by (simp add: exponent_def)

lemma round_to_double_mono_pos:
  assumes "0 < x" "x \<le> y"
  shows "round_to_double x \<le> round_to_double y"
proof (cases "exponent x = exponent y")
  case True
  have y: "0 < y" using assms by simp
  have "x / pow2 (exponent y - 52) \<le> y / pow2 (exponent y - 52)"
    using assms(2) by (simp add: divide_right_mono)
  then have "roundTiesToEven (x / pow2 (exponent y - 52)) \<le> roundTiesToEven (y / pow2 (exponent y - 52))"
    by (rule rte_mono)
  then have "pow2 (exponent y - 52) * of_int (roundTiesToEven (x / pow2 (exponent y - 52)))
      \<le> pow2 (exponent y - 52) * of_int (roundTiesToEven (y / pow2 (exponent y - 52)))"
    by (intro mult_left_mono) simp_all
  then show ?thesis using assms y by (simp add: round_to_double_def True)
next
  case False
  have y: "0 < y" using assms by simp
  have lt: "exponent x < exponent y" using exponent_mono[OF assms] False by simp
  have "- 1022 \<le> exponent x" by (simp add: exponent_def)
  then have "- 1022 < exponent y" using lt by simp
  then have "pow2 (exponent y) \<le> round_to_double y" by (rule round_to_double_pos_bounds(3)[OF y])
  moreover have "pow2 (exponent x + 1) \<le> pow2 (exponent y)" using lt by (intro pow2_mono) simp
  moreover have "round_to_double x \<le> 2 * pow2 (exponent x)" by (rule round_to_double_pos_bounds(2)[OF assms(1)])
  ultimately show ?thesis by (simp add: pow2_Suc)
qed

lemma round_to_double_zero [simp]: "round_to_double 0 = 0"
  by (simp add: round_to_double_def)

lemma round_to_double_mono:
  assumes "x \<le> y"
  shows "round_to_double x \<le> round_to_double y"
proof -
  consider "0 < x" | "y < 0" | "x \<le> 0" "0 \<le> y" by linarith
  then show ?thesis
  proof cases
    case 1
    show ?thesis by (rule round_to_double_mono_pos[OF 1 assms])
  next
    case 2
    then have "0 < - y" "- y \<le> - x" using assms by simp_all
    from round_to_double_mono_pos[OF this] show ?thesis
      by (simp add: round_to_double_minus)
  next
    case 3
    have a: "round_to_double x \<le> 0"
    proof (cases "x = 0")
      case True then show ?thesis by simp
    next
      case False
      then have "0 < - x" using 3 by simp
      from round_to_double_pos_bounds(1)[OF this] show ?thesis
        by (simp add: round_to_double_minus)
    qed
    have b: "0 \<le> round_to_double y"
    proof (cases "y = 0")
      case True then show ?thesis by simp
    next
      case False
      then have "0 < y" using 3 by simp
      then show ?thesis by (rule round_to_double_pos_bounds(1))
    qed
    show ?thesis using a b by linarith
  qed
qed

lemma round_to_double_dyadic_pos:
  assumes "0 < n" "n < 2 ^ 53" "- 1074 \<le> k"
  shows "round_to_double (of_int n * pow2 k) = of_int n * pow2 k"
proof -
  let ?x = "of_int n * pow2 k"
  have x: "0 < ?x" using assms(1) by simp
  let ?e = "exponent ?x"
  have "?x < of_int (2 ^ 53) * pow2 k"
    using assms(2) by (simp only: of_int_less_iff mult_less_cancel_right_pos pow2_pos)
  also have "\<dots> = pow2 (k + 53)" using pow2_add[of k 53] by (simp add: pow2_def)
  finally have "?x < pow2 (k + 53)" .
  then have "pow2 (floor_log2 ?x) < pow2 (k + 53)"
    using floor_log2_bounds[OF x] by linarith
  then have "floor_log2 ?x < k + 53"
    using pow2_mono[of "k + 53" "floor_log2 ?x"] by (cases "floor_log2 ?x < k + 53") auto
  then have e: "?e - 52 \<le> k" using assms(3) x by (simp add: exponent_def)
  define d where "d = k - (?e - 52)"
  have d: "0 \<le> d" "k = (?e - 52) + d" using e by (simp_all add: d_def)
  have "?x / pow2 (?e - 52) = of_int n * pow2 d"
    by (subst d(2)) (simp add: pow2_add)
  also have "\<dots> = of_int (n * 2 ^ nat d)" using d(1) by (simp add: pow2_def)
  finally have q: "?x / pow2 (?e - 52) = of_int (n * 2 ^ nat d)" .
  have "round_to_double ?x = pow2 (?e - 52) * (?x / pow2 (?e - 52))"
    using x unfolding round_to_double_def q rte_of_int by simp
  then show ?thesis by simp
qed

lemma round_to_double_dyadic:
  assumes "\<bar>n\<bar> < 2 ^ 53" "- 1074 \<le> k"
  shows "round_to_double (of_int n * pow2 k) = of_int n * pow2 k"
proof -
  consider "0 < n" | "n = 0" | "n < 0" by linarith
  then show ?thesis
  proof cases
    case 1
    then show ?thesis using round_to_double_dyadic_pos[OF 1 _ assms(2)] assms(1) by simp
  next
    case 2
    then show ?thesis by simp
  next
    case 3
    then have "0 < - n" "- n < 2 ^ 53" using assms(1) by simp_all
    from round_to_double_dyadic_pos[OF this assms(2)] show ?thesis
      using round_to_double_minus[of "of_int (- n) * pow2 k"] by simp
  qed
qed

lemma round_to_double_of_int:
  "\<bar>n\<bar> < 2 ^ 53 \<Longrightarrow> round_to_double (of_int n) = of_int n"
  using round_to_double_dyadic[of n 0] by (simp add: pow2_def)

lemma round_to_double_numerals:
  "round_to_double 100 = 100"
  "round_to_double (- 100) = - 100"
  "round_to_double (- 1) = - 1"
  "round_to_double (- 1 / 2) = - 1 / 2"
  using round_to_double_of_int[of 100] round_to_double_of_int[of "- 100"]
    round_to_double_of_int[of "- 1"] round_to_double_dyadic[of "- 1" "- 1"]
  by (simp_all add: pow2_def)

lemma round_to_double_binade:
  assumes "pow2 e \<le> \<bar>x\<bar>" "\<bar>x\<bar> < 2 * pow2 e" "- 1022 \<le> e"
  shows "round_to_double x = pow2 (e - 52) * of_int (roundTiesToEven (x / pow2 (e - 52)))"
proof -
  have "floor_log2 \<bar>x\<bar> = e" using assms(1,2) by (rule floor_log2_unique)
  then have e: "exponent x = e" using assms(3) by (simp add: exponent_def)
  have "0 < \<bar>x\<bar>" using assms(1) pow2_pos[of e] by linarith
  then have "x \<noteq> 0" by simp
  then show ?thesis by (simp add: round_to_double_def e)
qed

text \<open>
  Two cosines at which the rounded product is a tie of \<^verbatim>\<open>Math.round\<close> and the exact
  product is not: the doubles nearest to \<open>-0.935\<close> and to \<open>-0.005\<close>. The route
  scores them \<open>-93\<close> and \<open>-0\<close>.
\<close>

lemma score_at_sample_doubles:
  "Math_round (round_to_double ((- 2105432825795707 / 2 ^ 51) * 100)) = - 93"
  "Math_round (round_to_double ((- 5764607523034235 / 2 ^ 60) * 100)) = 0"
proof -
  have 1: "round_to_double ((- 2105432825795707 / 2 ^ 51) * 100) = - 187 / 2"
    by (subst round_to_double_binade[of 6]) (simp_all add: pow2_def roundTiesToEven_def)
  have 2: "round_to_double ((- 5764607523034235 / 2 ^ 60) * 100) = - 1 / 2"
    by (subst round_to_double_binade[of "- 1"]) (simp_all add: pow2_def roundTiesToEven_def)
  show "Math_round (round_to_double ((- 2105432825795707 / 2 ^ 51) * 100)) = - 93"
    unfolding 1 by (simp add: Math_round_def)
  show "Math_round (round_to_double ((- 5764607523034235 / 2 ^ 60) * 100)) = 0"
    unfolding 2 by (simp add: Math_round_def)
qed

lemma score_bounds:
  assumes "- 1 \<le> c" "c \<le> 1"
  shows "- 100 \<le> Math_round (round_to_double (c * 100))"
    and "Math_round (round_to_double (c * 100)) \<le> 100"
proof -
  have "round_to_double (- 100) \<le> round_to_double (c * 100)"
    using assms(1) by (intro round_to_double_mono) simp
  then have "- 100 \<le> round_to_double (c * 100)" by (simp add: round_to_double_numerals)
  then have "(- 100 :: int) \<le> \<lfloor>round_to_double (c * 100) + 1 / 2\<rfloor>" by (simp add: le_floor_iff)
  then show "- 100 \<le> Math_round (round_to_double (c * 100))" unfolding Math_round_def by linarith
  have "round_to_double (c * 100) \<le> round_to_double 100"
    using assms(2) by (intro round_to_double_mono) simp
  then have "round_to_double (c * 100) \<le> 100" by (simp add: round_to_double_numerals)
  then have "\<lfloor>round_to_double (c * 100) + 1 / 2\<rfloor> \<le> (100 :: int)" by (simp add: floor_le_iff)
  then show "Math_round (round_to_double (c * 100)) \<le> 100" unfolding Math_round_def by linarith
qed

lemma score_nonneg:
  assumes "0 \<le> c"
  shows "0 \<le> Math_round (round_to_double (c * 100))"
proof -
  have "round_to_double 0 \<le> round_to_double (c * 100)"
    using assms by (intro round_to_double_mono) simp
  then have "(0 :: int) \<le> \<lfloor>round_to_double (c * 100) + 1 / 2\<rfloor>" by (simp add: le_floor_iff)
  then show ?thesis unfolding Math_round_def by linarith
qed

lemma score_negative:
  assumes "c \<le> - 1 / 100"
  shows "Math_round (round_to_double (c * 100)) \<le> - 1"
proof -
  have "round_to_double (c * 100) \<le> round_to_double (- 1)"
    using assms by (intro round_to_double_mono) simp
  then have "round_to_double (c * 100) \<le> - 1" by (simp add: round_to_double_numerals)
  then have "\<lfloor>round_to_double (c * 100) + 1 / 2\<rfloor> \<le> (- 1 :: int)" by (simp add: floor_le_iff)
  then show ?thesis unfolding Math_round_def by linarith
qed

lemma score_negative_only:
  assumes "Math_round (round_to_double (c * 100)) < 0"
  shows "c < - 1 / 200"
proof (rule ccontr)
  assume "\<not> c < - 1 / 200"
  then have "- 1 / 2 \<le> c * 100" by simp
  then have "round_to_double (- 1 / 2) \<le> round_to_double (c * 100)"
    by (rule round_to_double_mono)
  then have "- 1 / 2 \<le> round_to_double (c * 100)" using round_to_double_numerals(4) by simp
  then have "(0 :: int) \<le> \<lfloor>round_to_double (c * 100) + 1 / 2\<rfloor>" by (simp add: le_floor_iff)
  then have "0 \<le> Math_round (round_to_double (c * 100))" unfolding Math_round_def by linarith
  then show False using assms by simp
qed

subsection \<open>Frontend matching\<close>

lemma set_map_filter_Some:
  "set (List.map_filter f xs) = {y. \<exists>x\<in>set xs. f x = Some y}"
  by (induction xs) (auto split: option.splits)

lemma map_filter_as_map:
  "List.map_filter f xs = map (\<lambda>x. the (f x)) (filter (\<lambda>x. f x \<noteq> None) xs)"
  by (simp add: List.map_filter_def comp_def)

lemma set_frontend_matching:
  "set (frontend_matching cs jd rs) = {m. \<exists>r\<in>set rs. match_resume cs jd r = Some m}"
  by (simp add: frontend_matching_def set_map_filter_Some)

lemma match_resume_SomeD:
  assumes "match_resume cs jd r = Some m"
  shows "\<exists>je re. jd_embedding jd = Some je \<and> embedding r = Some re \<and>
      resume m = Row r \<and>
      similarity_score m = Math_round (round_to_double (cs je re * 100)) \<and>
      matched_skills m = matchedSkills (case jd_skills jd of None \<Rightarrow> [] | Some ss \<Rightarrow> ss)
                                       (case skills r of None \<Rightarrow> [] | Some ss \<Rightarrow> ss) \<and>
      highlights m = make_highlights r (matched_skills m)"
  using assms by (auto simp: match_resume_def Let_def split: option.splits)

lemma match_resume_id: "match_resume cs jd r \<noteq> None \<Longrightarrow> json_id (resume (the (match_resume cs jd r))) = r_id r"
  using match_resume_SomeD[of cs jd r] by fastforce

lemma map_filter_match_resume_filter:
  "List.map_filter (match_resume cs j) (filter (\<lambda>r. embedding r \<noteq> None) rs)
     = List.map_filter (match_resume cs j) rs"
  by (induction rs) (auto simp: match_resume_def split: option.splits)



lemma show_nat_0: "show_nat 0 = ''0''"
  by (simp add: show_nat.simps)

lemma show_examples:
  "show_nat 120 = ''120''"
  "show_int 6 = ''6''"
  "show_int (- 3) = ''-3''"
  by (simp_all add: show_nat.simps show_int_def)

subsection \<open>The table of match results\<close>

lemma with_defaults_sel [simp]:
  "job_description_id (with_defaults i) = job_description_id i"
  "resume_id (with_defaults i) = resume_id i"
  "similarity_score (with_defaults i) = similarity_score i"
  "matched_skills (with_defaults i) = matched_skills i"
  "highlights (with_defaults i) = highlights i"
  "is_shortlisted (with_defaults i) = False"
  by (simp_all add: with_defaults_def MatchInsert.defs MatchResultRow.defs)

lemma pair_key_with_defaults [simp]: "pair_key (with_defaults i) = pair_key i"
  by (simp add: pair_key_def)

lemma unique_pairs_delete_eq:
  "unique_pairs tbl \<Longrightarrow> unique_pairs (delete_eq env jid tbl)"
  by (simp add: unique_pairs_def delete_eq_def distinct_map_filter split: option.split)

lemma unique_pairs_insert_rows:
  "unique_pairs tbl \<Longrightarrow> unique_pairs (snd (insert_rows env ins tbl))"
  by (simp add: insert_rows_def split: option.split)

lemma filter_other_jd_new:
  assumes "\<forall>i\<in>set ins. job_description_id i = jid"
  shows "filter (\<lambda>r. job_description_id r \<noteq> jid) (map with_defaults ins) = []"
  using assms by (simp add: filter_empty_conv)

lemma unique_pairs_twice:
  assumes "unique_pairs (tbl @ new @ new)"
  shows "new = []"
proof (cases new)
  case Nil then show ?thesis .
next
  case (Cons x xs)
  have "distinct (map pair_key (new @ new))"
    using assms by (simp add: unique_pairs_def)
  then show ?thesis using Cons by auto
qed

lemma store_rerun:
  assumes "\<forall>i\<in>set ins. job_description_id i = jid"
  shows "snd (insert_rows env ins (delete_eq env jid (snd (insert_rows env ins (delete_eq env jid tbl)))))
         = snd (insert_rows env ins (delete_eq env jid tbl))"
proof (cases "delete_error env")
  case (Some e)
  then have d: "delete_eq env jid t = t" for t by (simp add: delete_eq_def)
  show ?thesis
  proof (cases "insert_error env = None \<and> unique_pairs (tbl @ map with_defaults ins)")
    case True
    then have 1: "snd (insert_rows env ins tbl) = tbl @ map with_defaults ins"
      by (simp add: insert_rows_def)
    have "snd (insert_rows env ins (tbl @ map with_defaults ins)) = tbl @ map with_defaults ins"
    proof (cases "unique_pairs ((tbl @ map with_defaults ins) @ map with_defaults ins)")
      case True
      then have "map with_defaults ins = []" using unique_pairs_twice[of tbl "map with_defaults ins"] by simp
      then show ?thesis by (simp add: insert_rows_def split: option.split)
    next
      case False
      then show ?thesis by (simp add: insert_rows_def split: option.split)
    qed
    then show ?thesis by (simp add: d 1)
  next
    case False
    then have 1: "snd (insert_rows env ins tbl) = tbl"
      by (auto simp: insert_rows_def split: option.split)
    show ?thesis by (simp add: d 1)
  qed
next
  case None
  let ?D = "filter (\<lambda>r. job_description_id r \<noteq> jid) tbl"
  have d: "delete_eq env jid t = filter (\<lambda>r. job_description_id r \<noteq> jid) t" for t
    using None by (simp add: delete_eq_def)
  have "snd (insert_rows env ins ?D) = ?D \<or> snd (insert_rows env ins ?D) = ?D @ map with_defaults ins"
    by (simp add: insert_rows_def split: option.split)
  then have "filter (\<lambda>r. job_description_id r \<noteq> jid) (snd (insert_rows env ins ?D)) = ?D"
    using filter_other_jd_new[OF assms] by auto
  then show ?thesis by (simp add: d)
qed

lemma store_fresh:
  assumes "unique_pairs tbl" "delete_error env = None" "insert_error env = None"
    and "\<forall>i\<in>set ins. job_description_id i = jid" "distinct (map resume_id ins)"
  shows "snd (insert_rows env ins (delete_eq env jid tbl)) =
           filter (\<lambda>r. job_description_id r \<noteq> jid) tbl @ map with_defaults ins"
    and "fst (insert_rows env ins (delete_eq env jid tbl)) = None"
proof -
  let ?D = "filter (\<lambda>r. job_description_id r \<noteq> jid) tbl"
  have 1: "distinct (map pair_key ?D)"
    using assms(1) by (simp add: unique_pairs_def distinct_map_filter)
  have "inj_on pair_key (set ins)"
    using assms(4) distinct_map[of resume_id ins] assms(5)
    by (auto simp: inj_on_def pair_key_def) 
  then have 2: "distinct (map pair_key ins)"
    using assms(5) by (simp add: distinct_map)
  have 3: "pair_key ` set ?D \<inter> pair_key ` set ins = {}"
    using assms(4) by (auto simp: pair_key_def)
  have "unique_pairs (?D @ map with_defaults ins)"
    using 1 2 3 by (simp add: unique_pairs_def comp_def)
  then show "snd (insert_rows env ins (delete_eq env jid tbl)) = ?D @ map with_defaults ins"
    and "fst (insert_rows env ins (delete_eq env jid tbl)) = None"
    using assms(2,3) by (simp_all add: insert_rows_def delete_eq_def)
qed

lemma store_matches_eq:
  "store_matches env jid ins db =
     (db\<lparr>match_results := snd (insert_rows env ins (delete_eq env jid (match_results db)))\<rparr>,
      (case fst (insert_rows env ins (delete_eq env jid (match_results db))) of
         None \<Rightarrow> [] | Some e \<Rightarrow> [Console_error ''Error storing match results:'' e]))"
  by (simp add: store_matches_def Let_def split: prod.split)

lemma frontend_inserts_jid: "\<forall>i\<in>set (frontend_inserts jid ms). job_description_id i = jid"
  by (simp add: frontend_inserts_def)

lemma backend_inserts_jid: "\<forall>i\<in>set (backend_inserts jid rs). job_description_id i = jid"
  by (simp add: backend_inserts_def)

lemma distinct_map_sort_key: "distinct (map g (sort_key k xs)) = distinct (map g xs)"
  by (simp add: distinct_map)

lemma frontend_inserts_ids:
  "distinct (map r_id rs) \<Longrightarrow> distinct (map resume_id (frontend_inserts jid (frontend_matching cs jd rs)))"
proof -
  assume a: "distinct (map r_id rs)"
  have "map (\<lambda>m. json_id (resume m)) (List.map_filter (match_resume cs jd) rs)
        = map r_id (filter (\<lambda>r. match_resume cs jd r \<noteq> None) rs)"
    by (simp add: map_filter_as_map match_resume_id comp_def cong: map_cong)
  then have "distinct (map (\<lambda>m. json_id (resume m)) (List.map_filter (match_resume cs jd) rs))"
    using a by (simp add: distinct_map_filter)
  then show ?thesis
    by (simp add: frontend_inserts_def frontend_matching_def comp_def distinct_map_sort_key)
qed

lemma backend_inserts_ids: "map resume_id (backend_inserts jid rs) = map b_resume_id rs"
  by (simp add: backend_inserts_def comp_def)

lemma insert_rows_error:
  "insert_error env = Some e \<Longrightarrow> insert_rows env ins tbl = (Some e, tbl)"
  by (simp add: insert_rows_def)

subsection \<open>The handler as a whole\<close>

lemma POST_unchanged_cases:
  "(\<exists>jd ins ms. select_single env db jid = Inr jd \<and> resumes_error env = None \<and>
       (\<forall>i\<in>set ins. job_description_id i = jid) \<and>
       (backend env = Http_not_ok \<and> ms = frontend_matching cs jd (resumes db) \<and> ins = frontend_inserts jid ms
        \<or> (\<exists>data. backend env = Http_ok data \<and> success data \<and> ms = formattedResults (results data) \<and>
             ins = backend_inserts jid (results data))) \<and>
       response (POST cs env db jid) = Json_results ms \<and>
       db_after (POST cs env db jid) =
         db\<lparr>match_results := snd (insert_rows env ins (delete_eq env jid (match_results db)))\<rparr>)
   \<or> ((\<exists>e st. \<forall>t. POST cs env (db\<lparr>match_results := t\<rparr>) jid =
          \<lparr> response = Json_error e st, db_after = db\<lparr>match_results := t\<rparr>, console = 
             console (POST cs env db jid) \<rparr>))"
proof (cases "select_single env db jid")
  case (Inl e)
  then show ?thesis by (auto simp: POST_def)
next
  case (Inr jd)
  show ?thesis
  proof (cases "resumes_error env")
    case (Some msg)
    then show ?thesis using Inr by (auto simp: POST_def)
  next
    case None
    show ?thesis
    proof (cases "backend env")
      case (Fetch_rejected e)
      then show ?thesis using Inr None by (auto simp: POST_def)
    next
      case Http_not_ok
      show ?thesis
        using Inr None Http_not_ok frontend_inserts_jid
        by (simp add: POST_fallback[OF Inr None Http_not_ok] store_matches_eq)
    next
      case (Http_ok_no_json e)
      then show ?thesis using Inr None by (auto simp: POST_def)
    next
      case (Http_ok data)
      show ?thesis
      proof (cases "success data")
        case True
        show ?thesis
          using Inr None Http_ok True backend_inserts_jid
          by (simp add: POST_backend[OF Inr None Http_ok True] store_matches_eq)
      next
        case False
        then show ?thesis using Inr None Http_ok by (auto simp: POST_def)
      qed
    qed
  qed
qed

lemma db_match_results_same [simp]: "db\<lparr>match_results := match_results db\<rparr> = (db::database)"
  by simp

lemma POST_rerun:
  "db_after (POST cs env (db_after (POST cs env db jid)) jid) = db_after (POST cs env db jid) \<and>
   response (POST cs env (db_after (POST cs env db jid)) jid) = response (POST cs env db jid)"
proof -
  let ?T = "\<lambda>ins. snd (insert_rows env ins (delete_eq env jid (match_results db)))"
  consider
    (stored) jd ins ms where "select_single env db jid = Inr jd" "resumes_error env = None"
       "\<forall>i\<in>set ins. job_description_id i = jid"
       "backend env = Http_not_ok \<and> ms = frontend_matching cs jd (resumes db) \<and> ins = frontend_inserts jid ms
        \<or> (\<exists>data. backend env = Http_ok data \<and> success data \<and> ms = formattedResults (results data) \<and>
             ins = backend_inserts jid (results data))"
       "response (POST cs env db jid) = Json_results ms"
       "db_after (POST cs env db jid) = db\<lparr>match_results := ?T ins\<rparr>"
  | (failed) e st where "\<forall>t. POST cs env (db\<lparr>match_results := t\<rparr>) jid =
          \<lparr> response = Json_error e st, db_after = db\<lparr>match_results := t\<rparr>, console = 
             console (POST cs env db jid) \<rparr>"
    using POST_unchanged_cases[of env db jid cs] by blast
  then show ?thesis
  proof cases
    case stored
    let ?db1 = "db\<lparr>match_results := ?T ins\<rparr>"
    have sel: "select_single env ?db1 jid = Inr jd" using stored(1) by simp
    have rerun: "snd (insert_rows env ins (delete_eq env jid (?T ins))) = ?T ins"
      using store_rerun[OF stored(3)] .
    from stored(4) show ?thesis
    proof
      assume f: "backend env = Http_not_ok \<and> ms = frontend_matching cs jd (resumes db) \<and> ins = frontend_inserts jid ms"
      then have b: "backend env = Http_not_ok"
        and ms: "frontend_matching cs jd (resumes db) = ms" and ins: "frontend_inserts jid ms = ins"
        by simp_all
      have "db_after (POST cs env ?db1 jid) = ?db1 \<and> response (POST cs env ?db1 jid) = Json_results ms"
        by (simp add: POST_fallback[OF sel stored(2) b] store_matches_eq ms ins rerun)
      then show ?thesis by (simp add: stored(5,6))
    next
      assume "\<exists>data. backend env = Http_ok data \<and> success data \<and> ms = formattedResults (results data) \<and>
             ins = backend_inserts jid (results data)"
      then obtain data where d: "backend env = Http_ok data" "success data"
         "ms = formattedResults (results data)" "ins = backend_inserts jid (results data)" by blast
      have "db_after (POST cs env ?db1 jid) = ?db1 \<and> response (POST cs env ?db1 jid) = Json_results ms"
        by (simp add: POST_backend[OF sel stored(2) d(1,2)] store_matches_eq d(3,4)[symmetric] rerun)
      then show ?thesis by (simp add: stored(5,6))
    qed
  next
    case failed
    from failed[rule_format, of "match_results db"]
    have "POST cs env db jid = \<lparr> response = Json_error e st, db_after = db, console = 
             console (POST cs env db jid) \<rparr>" by simp
    then have "db_after (POST cs env db jid) = db"
      by (metis outcome.select_convs(2))
    then show ?thesis by simp
  qed
qed

lemma POST_unique_pairs:
  assumes "unique_pairs (match_results db)"
  shows "unique_pairs (match_results (db_after (POST cs env db jid)))"
proof -
  consider
    (stored) ins where 
       "db_after (POST cs env db jid) = 
          db\<lparr>match_results := snd (insert_rows env ins (delete_eq env jid (match_results db)))\<rparr>"
  | (failed) e st where "\<forall>t. POST cs env (db\<lparr>match_results := t\<rparr>) jid =
          \<lparr> response = Json_error e st, db_after = db\<lparr>match_results := t\<rparr>, console = 
             console (POST cs env db jid) \<rparr>"
    using POST_unchanged_cases[of env db jid cs] by blast
  then show ?thesis
  proof cases
    case stored
    then show ?thesis
      using unique_pairs_insert_rows[OF unique_pairs_delete_eq[OF assms]] by simp
  next
    case failed
    from failed[rule_format, of "match_results db"]
    have "POST cs env db jid = \<lparr> response = Json_error e st, db_after = db, console = 
             console (POST cs env db jid) \<rparr>" by simp
    then have "db_after (POST cs env db jid) = db"
      by (metis outcome.select_convs(2))
    then show ?thesis using assms by simp
  qed
qed

lemma POST_without_missing_embeddings:
  fixes db :: database
  defines "db' \<equiv> db\<lparr>resumes := filter (\<lambda>r. embedding r \<noteq> None) (resumes db)\<rparr>"
  shows "POST cs env db' jid =
           (POST cs env db jid)\<lparr>db_after := (db_after (POST cs env db jid))\<lparr>resumes := resumes db'\<rparr>\<rparr>"
proof -
  have r: "resumes db' = filter (\<lambda>r. embedding r \<noteq> None) (resumes db)"
    and m: "match_results db' = match_results db"
    and u: "\<And>t. db'\<lparr>match_results := t\<rparr> = db\<lparr>match_results := t\<rparr>\<lparr>resumes := resumes db'\<rparr>"
    and s: "select_single env db' jid = select_single env db jid"
    by (simp_all add: db'_def)
  have fm: "frontend_matching cs j (resumes db') = frontend_matching cs j (resumes db)" for j
    unfolding frontend_matching_def r map_filter_match_resume_filter ..
  have sm: "store_matches env jid ins db' =
      (fst (store_matches env jid ins db)\<lparr>resumes := resumes db'\<rparr>, snd (store_matches env jid ins db))" for ins
    by (simp add: store_matches_eq m u)
  have same: "db\<lparr>resumes := resumes db'\<rparr> = db'"
    by (simp add: db'_def)
  show ?thesis
    by (simp add: POST_def s fm sm same Let_def case_prod_beta split: sum.split option.split fetch_outcome.split)
qed

lemma response_insert_error_irrelevant:
  "response (POST cs (env\<lparr>insert_error := x\<rparr>) db jid) = response (POST cs env db jid)"
  by (simp add: POST_def select_single_def Let_def case_prod_beta
        split: sum.split option.split fetch_outcome.split list.split)

subsection \<open>The sample data evaluated\<close>

lemma sample_cosine:
  "cosine_similarity [1, 0] [1, 0] = 1"
  "cosine_similarity [1, 0] [-1, 0] = -1"
  by (simp_all add: cosine_similarity_def)

lemma sample_jd_sel [simp]:
  "jd_id sample_jd = ''jd-1''"
  "jd_skills sample_jd = Some [''Python'']"
  "jd_embedding sample_jd = Some [1, 0]"
  by (simp_all add: sample_jd_def)

lemma sample_resume_sel [simp]:
  "r_id (sample_resume i e) = i"
  "skills (sample_resume i e) = Some [''Python'', ''python'', ''SQL'']"
  "embedding (sample_resume i e) = e"
  "experience_years (sample_resume i e) = Some 6"
  "education (sample_resume i e) = None"
  by (simp_all add: sample_resume_def)

lemma sample_env_sel [simp]:
  "jd_error (sample_env b ie) = None"
  "resumes_error (sample_env b ie) = None"
  "backend (sample_env b ie) = b"
  "delete_error (sample_env b ie) = None"
  "insert_error (sample_env b ie) = ie"
  by (simp_all add: sample_env_def)

lemma sample_db_sel [simp]:
  "job_descriptions (sample_db jd rs tbl) = [jd]"
  "resumes (sample_db jd rs tbl) = rs"
  "match_results (sample_db jd rs tbl) = tbl"
  "sample_db jd rs tbl\<lparr>match_results := t\<rparr> = sample_db jd rs t"
  "sample_db jd rs tbl\<lparr>resumes := rs'\<rparr> = sample_db jd rs' tbl"
  by (simp_all add: sample_db_def)

lemma sample_select:
  "jd_id jd = jid \<Longrightarrow> select_single (sample_env b ie) (sample_db jd rs tbl) jid = Inr jd"
  by (simp add: select_single_def)

lemma sample_lower:
  "toLowerCase ''Python'' = ''python''"
  "toLowerCase ''python'' = ''python''"
  "toLowerCase ''SQL'' = ''sql''"
  by (simp_all add: toLowerCase_def lower_char_def)

lemma sample_matchedSkills:
  "matchedSkills [''Python''] [''Python'', ''python'', ''SQL''] = [''Python'', ''python'']"
  "matchedSkills [] [''Python'', ''python'', ''SQL''] = []"
  by (simp_all add: matchedSkills_def sample_lower)

lemma sample_highlights:
  "make_highlights (sample_resume i e) [''Python'', ''python''] =
     [''6 years of experience'', ''2 matching skills'', ''Education not specified'']"
  "make_highlights (sample_resume i e) [] =
     [''6 years of experience'', ''0 matching skills'', ''Education not specified'']"
  by (simp_all add: make_highlights_def show_int_def show_nat.simps)

lemma sample_match:
  "match_resume cosine_similarity sample_jd (sample_resume i (Some [1, 0])) =
     Some \<lparr> similarity_score = 100, matched_skills = [''Python'', ''python''],
            highlights = [''6 years of experience'', ''2 matching skills'', ''Education not specified''],
            resume = Row (sample_resume i (Some [1, 0])) \<rparr>"
  "match_resume cosine_similarity sample_jd (sample_resume i (Some [-1, 0])) =
     Some \<lparr> similarity_score = - 100, matched_skills = [''Python'', ''python''],
            highlights = [''6 years of experience'', ''2 matching skills'', ''Education not specified''],
            resume = Row (sample_resume i (Some [-1, 0])) \<rparr>"
  "match_resume cosine_similarity sample_jd (sample_resume i None) = None"
  "match_resume cosine_similarity (sample_jd\<lparr>jd_skills := None\<rparr>) (sample_resume i (Some [1, 0])) =
     Some \<lparr> similarity_score = 100, matched_skills = [],
            highlights = [''6 years of experience'', ''0 matching skills'', ''Education not specified''],
            resume = Row (sample_resume i (Some [1, 0])) \<rparr>"
  by (simp_all add: match_resume_def Let_def sample_cosine sample_matchedSkills sample_highlights
        round_to_double_numerals Math_round_def)

lemma sample_fallback:
  assumes "jd_id jd = jid"
  shows "response (POST cs (sample_env Http_not_ok ie) (sample_db jd rs tbl) jid)
           = Json_results (frontend_matching cs jd rs)"
    and "console (POST cs (sample_env Http_not_ok ie) (sample_db jd rs tbl) jid)
           = Console_warn ''Backend not available, using frontend matching'' #
             (case fst (insert_rows (sample_env Http_not_ok ie)
                          (frontend_inserts jid (frontend_matching cs jd rs))
                          (delete_eq (sample_env Http_not_ok ie) jid tbl)) of
                None \<Rightarrow> [] | Some e \<Rightarrow> [Console_error ''Error storing match results:'' e])"
    and "match_results (db_after (POST cs (sample_env Http_not_ok ie) (sample_db jd rs tbl) jid))
           = snd (insert_rows (sample_env Http_not_ok ie)
                          (frontend_inserts jid (frontend_matching cs jd rs))
                          (delete_eq (sample_env Http_not_ok ie) jid tbl))"
  using POST_fallback[OF sample_select[OF assms], of Http_not_ok ie cs rs tbl]
  by (simp_all add: store_matches_eq)

lemma sample_results:
  "frontend_matching cosine_similarity sample_jd [sample_resume i (Some [1, 0])] =
     [\<lparr> similarity_score = 100, matched_skills = [''Python'', ''python''],
        highlights = [''6 years of experience'', ''2 matching skills'', ''Education not specified''],
        resume = Row (sample_resume i (Some [1, 0])) \<rparr>]"
  "frontend_matching cosine_similarity sample_jd [sample_resume i (Some [1, 0]), sample_resume j None] =
     [\<lparr> similarity_score = 100, matched_skills = [''Python'', ''python''],
        highlights = [''6 years of experience'', ''2 matching skills'', ''Education not specified''],
        resume = Row (sample_resume i (Some [1, 0])) \<rparr>]"
  "frontend_matching cosine_similarity sample_jd [sample_resume i None] = []"
  "frontend_matching cosine_similarity sample_jd
       [sample_resume i (Some [-1, 0]), sample_resume j (Some [1, 0])] =
     [\<lparr> similarity_score = 100, matched_skills = [''Python'', ''python''],
        highlights = [''6 years of experience'', ''2 matching skills'', ''Education not specified''],
        resume = Row (sample_resume j (Some [1, 0])) \<rparr>,
      \<lparr> similarity_score = - 100, matched_skills = [''Python'', ''python''],
        highlights = [''6 years of experience'', ''2 matching skills'', ''Education not specified''],
        resume = Row (sample_resume i (Some [-1, 0])) \<rparr>]"
  "frontend_matching cosine_similarity sample_jd
       [sample_resume i (Some [1, 0]), sample_resume j (Some [1, 0])] =
     [\<lparr> similarity_score = 100, matched_skills = [''Python'', ''python''],
        highlights = [''6 years of experience'', ''2 matching skills'', ''Education not specified''],
        resume = Row (sample_resume i (Some [1, 0])) \<rparr>,
      \<lparr> similarity_score = 100, matched_skills = [''Python'', ''python''],
        highlights = [''6 years of experience'', ''2 matching skills'', ''Education not specified''],
        resume = Row (sample_resume j (Some [1, 0])) \<rparr>]"
  "frontend_matching cosine_similarity (sample_jd\<lparr>jd_skills := None\<rparr>) [sample_resume i (Some [1, 0])] =
     [\<lparr> similarity_score = 100, matched_skills = [],
        highlights = [''6 years of experience'', ''0 matching skills'', ''Education not specified''],
        resume = Row (sample_resume i (Some [1, 0])) \<rparr>]"
  by (simp_all add: frontend_matching_def sample_match)

lemma sample_data_sel [simp]:
  "success (sample_data rs) = True"
  "results (sample_data rs) = rs"
  by (simp_all add: sample_data_def)

lemma sample_backend_result_sel [simp]:
  "similarity_score (sample_backend_result i sc) = sc"
  "b_resume_id (sample_backend_result i sc) = i"
  by (simp_all add: sample_backend_result_def)

lemma sample_backend:
  assumes "jd_id jd = jid"
  shows "response (POST cs (sample_env (Http_ok (sample_data bs)) ie) (sample_db jd rs tbl) jid)
           = Json_results (formattedResults bs)"
    and "console (POST cs (sample_env (Http_ok (sample_data bs)) ie) (sample_db jd rs tbl) jid)
           = (case fst (insert_rows (sample_env (Http_ok (sample_data bs)) ie)
                          (backend_inserts jid bs)
                          (delete_eq (sample_env (Http_ok (sample_data bs)) ie) jid tbl)) of
                None \<Rightarrow> [] | Some e \<Rightarrow> [Console_error ''Error storing match results:'' e])"
    and "match_results (db_after (POST cs (sample_env (Http_ok (sample_data bs)) ie) (sample_db jd rs tbl) jid))
           = snd (insert_rows (sample_env (Http_ok (sample_data bs)) ie)
                          (backend_inserts jid bs)
                          (delete_eq (sample_env (Http_ok (sample_data bs)) ie) jid tbl))"
  using POST_backend[OF sample_select[OF assms], of "Http_ok (sample_data bs)" ie "sample_data bs" cs rs tbl]
  by (simp_all add: store_matches_eq)

lemma sample_env_upd [simp]: "(sample_env b ie)\<lparr>insert_error := x\<rparr> = sample_env b x"
  by (simp add: sample_env_def)

lemma sample_stored:
  "snd (insert_rows (sample_env b (Some e)) ins
         (delete_eq (sample_env b (Some e)) ''jd-1'' [sample_row ''jd-1'' ''a'' True, sample_row ''jd-2'' ''a'' True]))
     = [sample_row ''jd-2'' ''a'' True]"
  "fst (insert_rows (sample_env b (Some e)) ins tbl) = Some e"
  by (simp_all add: insert_rows_def delete_eq_def unique_pairs_def pair_key_def sample_row_def
        with_defaults_def MatchInsert.defs MatchResultRow.defs comp_def)

lemma sample_unique:
  "unique_pairs [sample_row ''jd-1'' ''a'' True, sample_row ''jd-2'' ''a'' True]"
  by (simp add: unique_pairs_def pair_key_def sample_row_def)


section \<open>The claims\<close>

subsection \<open>C1: the similarity score\<close>

text \<open>
  C1, as amended. In the frontend path the score of a result is
  \<^verbatim>\<open>Math.round(similarity * 100)\<close> of the cosine similarity of the two embeddings, the
  product rounded to a double, with no clamping: it lies in \<open>[-100, 100]\<close> when the
  cosine lies in \<open>[-1, 1]\<close>, it is not negative when the cosine is not, it is \<open>-1\<close> or
  less when the cosine is \<open>-0.01\<close> or less, and it is negative for no cosine of
  \<open>-0.005\<close> or more. In the backend path the route hands on the scores of the backend
  as they are.
\<close>

theorem similarity_score_unclamped:
  assumes "select_single env db jid = Inr jd" "resumes_error env = None"
  shows "(backend env = Http_not_ok \<longrightarrow>
           (\<exists>ms. response (POST cs env db jid) = Json_results ms \<and>
             (\<forall>m\<in>set ms. \<exists>r\<in>set (resumes db). \<exists>je re.
                resume m = Row r \<and> jd_embedding jd = Some je \<and> embedding r = Some re \<and>
                similarity_score m = of_int \<lfloor>round_to_double (cs je re * 100) + 1 / 2\<rfloor> \<and>
                (- 1 \<le> cs je re \<and> cs je re \<le> 1 \<longrightarrow>
                   - 100 \<le> similarity_score m \<and> similarity_score m \<le> 100) \<and>
                (0 \<le> cs je re \<longrightarrow> 0 \<le> similarity_score m) \<and>
                (cs je re \<le> - 1 / 100 \<longrightarrow> similarity_score m \<le> - 1) \<and>
                (similarity_score m < 0 \<longrightarrow> cs je re < - 1 / 200)))) \<and>
         (\<forall>data. backend env = Http_ok data \<and> success data \<longrightarrow>
           (\<exists>ms. response (POST cs env db jid) = Json_results ms \<and>
                 map similarity_score ms = map similarity_score (results data)))"
proof (intro conjI impI allI)
  assume b: "backend env = Http_not_ok"
  have "\<exists>r\<in>set (resumes db). \<exists>je re.
                resume m = Row r \<and> jd_embedding jd = Some je \<and> embedding r = Some re \<and>
                similarity_score m = of_int \<lfloor>round_to_double (cs je re * 100) + 1 / 2\<rfloor> \<and>
                (- 1 \<le> cs je re \<and> cs je re \<le> 1 \<longrightarrow>
                   - 100 \<le> similarity_score m \<and> similarity_score m \<le> 100) \<and>
                (0 \<le> cs je re \<longrightarrow> 0 \<le> similarity_score m) \<and>
                (cs je re \<le> - 1 / 100 \<longrightarrow> similarity_score m \<le> - 1) \<and>
                (similarity_score m < 0 \<longrightarrow> cs je re < - 1 / 200)"
    if "m \<in> set (frontend_matching cs jd (resumes db))" for m
  proof -
    from that obtain r where r: "r \<in> set (resumes db)" "match_resume cs jd r = Some m"
      by (auto simp: set_frontend_matching)
    from match_resume_SomeD[OF r(2)] obtain je re where
      e: "jd_embedding jd = Some je" "embedding r = Some re" "resume m = Row r"
      and s: "similarity_score m = Math_round (round_to_double (cs je re * 100))"
      by auto
    have 1: "similarity_score m = of_int \<lfloor>round_to_double (cs je re * 100) + 1 / 2\<rfloor>"
      using s by (simp add: Math_round_def)
    have 2: "- 1 \<le> cs je re \<and> cs je re \<le> 1 \<longrightarrow>
                   - 100 \<le> similarity_score m \<and> similarity_score m \<le> 100"
      using score_bounds[of "cs je re"] s by simp
    have 3: "0 \<le> cs je re \<longrightarrow> 0 \<le> similarity_score m"
      using score_nonneg[of "cs je re"] s by simp
    have 4: "cs je re \<le> - 1 / 100 \<longrightarrow> similarity_score m \<le> - 1"
      using score_negative[of "cs je re"] s by simp
    have 5: "similarity_score m < 0 \<longrightarrow> cs je re < - 1 / 200"
      using score_negative_only[of "cs je re"] s by simp
    show ?thesis using r(1) e 1 2 3 4 5 by blast
  qed
  then show "\<exists>ms. response (POST cs env db jid) = Json_results ms \<and>
             (\<forall>m\<in>set ms. \<exists>r\<in>set (resumes db). \<exists>je re.
                resume m = Row r \<and> jd_embedding jd = Some je \<and> embedding r = Some re \<and>
                similarity_score m = of_int \<lfloor>round_to_double (cs je re * 100) + 1 / 2\<rfloor> \<and>
                (- 1 \<le> cs je re \<and> cs je re \<le> 1 \<longrightarrow>
                   - 100 \<le> similarity_score m \<and> similarity_score m \<le> 100) \<and>
                (0 \<le> cs je re \<longrightarrow> 0 \<le> similarity_score m) \<and>
                (cs je re \<le> - 1 / 100 \<longrightarrow> similarity_score m \<le> - 1) \<and>
                (similarity_score m < 0 \<longrightarrow> cs je re < - 1 / 200))"
    by (simp add: POST_fallback[OF assms(1,2) b])
next
  fix data assume "backend env = Http_ok data \<and> success data"
  then have "POST cs env db jid =
     \<lparr> response = Json_results (formattedResults (results data)),
       db_after = fst (store_matches env jid (backend_inserts jid (results data)) db),
       console = snd (store_matches env jid (backend_inserts jid (results data)) db) \<rparr>"
    using POST_backend[OF assms(1,2)] by blast
  then show "\<exists>ms. response (POST cs env db jid) = Json_results ms \<and>
                 map similarity_score ms = map similarity_score (results data)"
    by (simp add: formattedResults_def comp_def)
qed

text \<open>
  The theorem at a job description with embedding \<open>[1, 0]\<close> and resumes with embeddings
  \<open>[-1, 0]\<close> and \<open>[1, 0]\<close>, backend down, and at a backend that answers one result
  of score 87.
\<close>

theorem similarity_score_unclamped_witness:
  "select_single (sample_env Http_not_ok None)
      (sample_db sample_jd [sample_resume ''b'' (Some [-1, 0]), sample_resume ''a'' (Some [1, 0])] [])
      ''jd-1'' = Inr sample_jd \<and>
   resumes_error (sample_env Http_not_ok None) = None \<and>
   backend (sample_env Http_not_ok None) = Http_not_ok \<and>
   - 1 \<le> cosine_similarity [1, 0] [-1, 0] \<and> cosine_similarity [1, 0] [-1, 0] \<le> 1 \<and>
   cosine_similarity [1, 0] [-1, 0] \<le> - 1 / 100 \<and>
   0 \<le> cosine_similarity [1, 0] [1, 0] \<and>
   (\<exists>ms. response (POST cosine_similarity (sample_env Http_not_ok None)
            (sample_db sample_jd [sample_resume ''b'' (Some [-1, 0]), sample_resume ''a'' (Some [1, 0])] [])
            ''jd-1'') = Json_results ms \<and>
     (\<forall>m\<in>set ms. \<exists>r\<in>set [sample_resume ''b'' (Some [-1, 0]), sample_resume ''a'' (Some [1, 0])].
        \<exists>je re.
          resume m = Row r \<and> jd_embedding sample_jd = Some je \<and> embedding r = Some re \<and>
          similarity_score m = of_int \<lfloor>round_to_double (cosine_similarity je re * 100) + 1 / 2\<rfloor> \<and>
          (- 1 \<le> cosine_similarity je re \<and> cosine_similarity je re \<le> 1 \<longrightarrow>
             - 100 \<le> similarity_score m \<and> similarity_score m \<le> 100) \<and>
          (0 \<le> cosine_similarity je re \<longrightarrow> 0 \<le> similarity_score m) \<and>
          (cosine_similarity je re \<le> - 1 / 100 \<longrightarrow> similarity_score m \<le> - 1) \<and>
          (similarity_score m < 0 \<longrightarrow> cosine_similarity je re < - 1 / 200))) \<and>
   map similarity_score (result_list (response (POST cosine_similarity (sample_env Http_not_ok None)
            (sample_db sample_jd [sample_resume ''b'' (Some [-1, 0]), sample_resume ''a'' (Some [1, 0])] [])
            ''jd-1''))) = [100, - 100] \<and>
   backend (sample_env (Http_ok (sample_data [sample_backend_result ''a'' 87])) None)
     = Http_ok (sample_data [sample_backend_result ''a'' 87]) \<and>
   success (sample_data [sample_backend_result ''a'' 87]) \<and>
   (\<exists>ms. response (POST cosine_similarity
            (sample_env (Http_ok (sample_data [sample_backend_result ''a'' 87])) None)
            (sample_db sample_jd [sample_resume ''a'' (Some [1, 0])] []) ''jd-1'') = Json_results ms \<and>
         map similarity_score ms = [87])"
proof -
  let ?down = "sample_env Http_not_ok None"
  let ?up = "sample_env (Http_ok (sample_data [sample_backend_result ''a'' 87])) None"
  let ?db = "sample_db sample_jd [sample_resume ''b'' (Some [-1, 0]), sample_resume ''a'' (Some [1, 0])] []"
  let ?db1 = "sample_db sample_jd [sample_resume ''a'' (Some [1, 0])] []"
  have h1: "select_single ?down ?db ''jd-1'' = Inr sample_jd"
    and h2: "select_single ?up ?db1 ''jd-1'' = Inr sample_jd"
    by (simp_all add: sample_select)
  have r1: "resumes_error ?down = None" and r2: "resumes_error ?up = None"
    by simp_all
  have b1: "backend ?down = Http_not_ok"
    and b2: "backend ?up = Http_ok (sample_data [sample_backend_result ''a'' 87])
             \<and> success (sample_data [sample_backend_result ''a'' 87])"
    by simp_all
  have c: "- 1 \<le> cosine_similarity [1, 0] [-1, 0] \<and> cosine_similarity [1, 0] [-1, 0] \<le> 1"
    and c': "cosine_similarity [1, 0] [-1, 0] \<le> - 1 / 100"
    and c'': "0 \<le> cosine_similarity [1, 0] [1, 0]"
    by (simp_all add: sample_cosine)
  have v: "map similarity_score (result_list (response (POST cosine_similarity ?down ?db ''jd-1'')))
      = [100, - 100]"
    by (simp add: sample_fallback sample_results result_list_def)
  note T1 = similarity_score_unclamped[OF h1 r1, of cosine_similarity, THEN conjunct1, rule_format, OF b1]
  note T2 = similarity_score_unclamped[OF h2 r2, of cosine_similarity, THEN conjunct2, rule_format, OF b2]
  have T2': "\<exists>ms. response (POST cosine_similarity ?up ?db1 ''jd-1'') = Json_results ms \<and>
         map similarity_score ms = [87]"
    using T2 by simp
  have T1': "\<exists>ms. response (POST cosine_similarity ?down ?db ''jd-1'') = Json_results ms \<and>
     (\<forall>m\<in>set ms. \<exists>r\<in>set [sample_resume ''b'' (Some [-1, 0]), sample_resume ''a'' (Some [1, 0])].
        \<exists>je re.
          resume m = Row r \<and> jd_embedding sample_jd = Some je \<and> embedding r = Some re \<and>
          similarity_score m = of_int \<lfloor>round_to_double (cosine_similarity je re * 100) + 1 / 2\<rfloor> \<and>
          (- 1 \<le> cosine_similarity je re \<and> cosine_similarity je re \<le> 1 \<longrightarrow>
             - 100 \<le> similarity_score m \<and> similarity_score m \<le> 100) \<and>
          (0 \<le> cosine_similarity je re \<longrightarrow> 0 \<le> similarity_score m) \<and>
          (cosine_similarity je re \<le> - 1 / 100 \<longrightarrow> similarity_score m \<le> - 1) \<and>
          (similarity_score m < 0 \<longrightarrow> cosine_similarity je re < - 1 / 200))"
    using T1 unfolding sample_db_sel .
  show ?thesis
    using h1 r1 b1 c c' c'' T1' v b2 T2' by blast
qed

text \<open>
  C1 as stated fails: the resume whose embedding is opposite to that of the job
  description is answered with the score \<open>-100\<close>.
\<close>

theorem similarity_score_negative_counterexample:
  "cosine_similarity [1, 0] [-1, 0] = - 1 \<and>
   map similarity_score (result_list (response
     (POST cosine_similarity (sample_env Http_not_ok None)
        (sample_db sample_jd [sample_resume ''b'' (Some [-1, 0]), sample_resume ''a'' (Some [1, 0])] [])
        ''jd-1''))) = [100, - 100]"
  by (simp add: sample_cosine sample_fallback sample_results result_list_def)

subsection \<open>C2: delete, then insert\<close>

text \<open>
  C2. A run of the handler leaves at most one stored match result for each pair of job
  description and resume, also between its delete and its insert; a second run on the
  resulting database, with the same documents and the same answers of the collaborators,
  leaves the database as it is and answers the same results; and when the store serves
  the delete and the insert, the table afterwards holds the rows of the other job
  descriptions followed by the fresh rows of this one, in both paths.
\<close>

theorem match_all_replaces_rows_idempotent:
  assumes "unique_pairs (match_results db)"
  shows "unique_pairs (delete_eq env jid (match_results db)) \<and>
         unique_pairs (match_results (db_after (POST cs env db jid))) \<and>
         db_after (POST cs env (db_after (POST cs env db jid)) jid) = db_after (POST cs env db jid) \<and>
         response (POST cs env (db_after (POST cs env db jid)) jid) = response (POST cs env db jid) \<and>
         (select_single env db jid = Inr jd \<and> resumes_error env = None \<and>
          delete_error env = None \<and> insert_error env = None \<longrightarrow>
            (backend env = Http_not_ok \<and> distinct (map r_id (resumes db)) \<longrightarrow>
               match_results (db_after (POST cs env db jid)) =
                 filter (\<lambda>r. job_description_id r \<noteq> jid) (match_results db) @
                 map with_defaults (frontend_inserts jid (frontend_matching cs jd (resumes db)))) \<and>
            (\<forall>data. backend env = Http_ok data \<and> success data \<and>
                    distinct (map b_resume_id (results data)) \<longrightarrow>
               match_results (db_after (POST cs env db jid)) =
                 filter (\<lambda>r. job_description_id r \<noteq> jid) (match_results db) @
                 map with_defaults (backend_inserts jid (results data))))"
proof -
  have fresh: "match_results (db_after (POST cs env db jid)) =
                 filter (\<lambda>r. job_description_id r \<noteq> jid) (match_results db) @
                 map with_defaults (frontend_inserts jid (frontend_matching cs jd (resumes db)))"
    if "select_single env db jid = Inr jd" "resumes_error env = None"
       "delete_error env = None" "insert_error env = None"
       "backend env = Http_not_ok" "distinct (map r_id (resumes db))"
    using store_fresh(1)[OF assms that(3,4) frontend_inserts_jid frontend_inserts_ids[OF that(6)]]
    by (simp add: POST_fallback[OF that(1,2,5)] store_matches_eq)
  have fresh_b: "match_results (db_after (POST cs env db jid)) =
                 filter (\<lambda>r. job_description_id r \<noteq> jid) (match_results db) @
                 map with_defaults (backend_inserts jid (results data))"
    if "select_single env db jid = Inr jd" "resumes_error env = None"
       "delete_error env = None" "insert_error env = None"
       "backend env = Http_ok data" "success data" "distinct (map b_resume_id (results data))" for data
  proof -
    have "distinct (map resume_id (backend_inserts jid (results data)))"
      using that(7) by (simp add: backend_inserts_ids)
    from store_fresh(1)[OF assms that(3,4) backend_inserts_jid this]
    show ?thesis
      by (simp add: POST_backend[OF that(1,2,5,6)] store_matches_eq)
  qed
  show ?thesis
    using unique_pairs_delete_eq[OF assms] POST_unique_pairs[OF assms] POST_rerun fresh fresh_b
    by blast
qed

text \<open>
  The theorem at a table that holds a shortlisted match of \<open>jd-1\<close> and one of
  \<open>jd-2\<close>: after the run for \<open>jd-1\<close> the row of \<open>jd-2\<close> is still there, followed by
  the fresh row of \<open>jd-1\<close>, in the frontend path and in the backend path.
\<close>

theorem match_all_replaces_rows_idempotent_witness:
  "unique_pairs (match_results (sample_db sample_jd [sample_resume ''a'' (Some [1, 0])]
        [sample_row ''jd-1'' ''a'' True, sample_row ''jd-2'' ''a'' True])) \<and>
   select_single (sample_env Http_not_ok None) (sample_db sample_jd [sample_resume ''a'' (Some [1, 0])]
        [sample_row ''jd-1'' ''a'' True, sample_row ''jd-2'' ''a'' True]) ''jd-1'' = Inr sample_jd \<and>
   distinct (map r_id [sample_resume ''a'' (Some [1, 0])]) \<and>
   match_results (db_after (POST cosine_similarity (sample_env Http_not_ok None)
        (sample_db sample_jd [sample_resume ''a'' (Some [1, 0])]
           [sample_row ''jd-1'' ''a'' True, sample_row ''jd-2'' ''a'' True]) ''jd-1'')) =
     [sample_row ''jd-2'' ''a'' True,
      \<lparr> similarity_score = 1, matched_skills = [''Python'', ''python''],
        highlights = [''6 years of experience'', ''2 matching skills'', ''Education not specified''],
        job_description_id = ''jd-1'', resume_id = ''a'', is_shortlisted = False \<rparr>] \<and>
   db_after (POST cosine_similarity (sample_env Http_not_ok None)
      (db_after (POST cosine_similarity (sample_env Http_not_ok None)
        (sample_db sample_jd [sample_resume ''a'' (Some [1, 0])]
           [sample_row ''jd-1'' ''a'' True, sample_row ''jd-2'' ''a'' True]) ''jd-1'')) ''jd-1'') =
     db_after (POST cosine_similarity (sample_env Http_not_ok None)
        (sample_db sample_jd [sample_resume ''a'' (Some [1, 0])]
           [sample_row ''jd-1'' ''a'' True, sample_row ''jd-2'' ''a'' True]) ''jd-1'') \<and>
   unique_pairs (match_results (db_after (POST cosine_similarity (sample_env Http_not_ok None)
        (sample_db sample_jd [sample_resume ''a'' (Some [1, 0])]
           [sample_row ''jd-1'' ''a'' True, sample_row ''jd-2'' ''a'' True]) ''jd-1''))) \<and>
   distinct (map b_resume_id [sample_backend_result ''a'' 87]) \<and>
   match_results (db_after (POST cosine_similarity
        (sample_env (Http_ok (sample_data [sample_backend_result ''a'' 87])) None)
        (sample_db sample_jd [sample_resume ''a'' (Some [1, 0])]
           [sample_row ''jd-1'' ''a'' True, sample_row ''jd-2'' ''a'' True]) ''jd-1'')) =
     [sample_row ''jd-2'' ''a'' True,
      \<lparr> similarity_score = 87 / 100, matched_skills = [''Python''],
        highlights = [''6 years of experience''],
        job_description_id = ''jd-1'', resume_id = ''a'', is_shortlisted = False \<rparr>]"
proof -
  let ?down = "sample_env Http_not_ok None"
  let ?data = "sample_data [sample_backend_result ''a'' 87]"
  let ?up = "sample_env (Http_ok ?data) None"
  let ?db = "sample_db sample_jd [sample_resume ''a'' (Some [1, 0])]
               [sample_row ''jd-1'' ''a'' True, sample_row ''jd-2'' ''a'' True]"
  have u: "unique_pairs (match_results ?db)"
    by (simp add: sample_unique)
  have h1: "select_single ?down ?db ''jd-1'' = Inr sample_jd"
    and h2: "select_single ?up ?db ''jd-1'' = Inr sample_jd"
    by (simp_all add: sample_select)
  have d1: "distinct (map r_id [sample_resume ''a'' (Some [1, 0])])"
    and d2: "distinct (map b_resume_id [sample_backend_result ''a'' 87])"
    by simp_all
  note T1 = match_all_replaces_rows_idempotent[OF u, of ?down "''jd-1''" cosine_similarity sample_jd]
  note T2 = match_all_replaces_rows_idempotent[OF u, of ?up "''jd-1''" cosine_similarity sample_jd]
  have a: "match_results (db_after (POST cosine_similarity ?down ?db ''jd-1'')) =
     filter (\<lambda>r. job_description_id r \<noteq> ''jd-1'') (match_results ?db) @
     map with_defaults (frontend_inserts ''jd-1'' (frontend_matching cosine_similarity sample_jd (resumes ?db)))"
    using T1 h1 d1 by simp
  have a': "match_results (db_after (POST cosine_similarity ?down ?db ''jd-1'')) =
     [sample_row ''jd-2'' ''a'' True,
      \<lparr> similarity_score = 1, matched_skills = [''Python'', ''python''],
        highlights = [''6 years of experience'', ''2 matching skills'', ''Education not specified''],
        job_description_id = ''jd-1'', resume_id = ''a'', is_shortlisted = False \<rparr>]"
    unfolding a
    by (simp add: sample_results frontend_inserts_def sample_row_def
          with_defaults_def MatchInsert.defs MatchResultRow.defs)
  have b: "match_results (db_after (POST cosine_similarity ?up ?db ''jd-1'')) =
     filter (\<lambda>r. job_description_id r \<noteq> ''jd-1'') (match_results ?db) @
     map with_defaults (backend_inserts ''jd-1'' (results ?data))"
    using T2 h2 d2 by simp
  have b': "match_results (db_after (POST cosine_similarity ?up ?db ''jd-1'')) =
     [sample_row ''jd-2'' ''a'' True,
      \<lparr> similarity_score = 87 / 100, matched_skills = [''Python''],
        highlights = [''6 years of experience''],
        job_description_id = ''jd-1'', resume_id = ''a'', is_shortlisted = False \<rparr>]"
    unfolding b
    by (simp add: backend_inserts_def sample_backend_result_def sample_row_def
          with_defaults_def MatchInsert.defs MatchResultRow.defs)
  have c: "db_after (POST cosine_similarity ?down (db_after (POST cosine_similarity ?down ?db ''jd-1'')) ''jd-1'')
      = db_after (POST cosine_similarity ?down ?db ''jd-1'')"
    and e: "unique_pairs (match_results (db_after (POST cosine_similarity ?down ?db ''jd-1'')))"
    using T1 by blast+
  show ?thesis
    using u h1 d1 a' c e d2 b' by blast
qed

subsection \<open>C3: the ranking\<close>

text \<open>
  C3, as amended. The results of the frontend path are in descending order of score, and
  results of equal score keep the order in which the store returned their resumes (the
  sort is stable); the resume id plays no part in the order.
\<close>

theorem ranking_descending_stable:
  assumes "select_single env db jid = Inr jd" "resumes_error env = None" "backend env = Http_not_ok"
  shows "\<exists>ms. response (POST cs env db jid) = Json_results ms \<and>
          sorted_wrt (\<lambda>a b. similarity_score b \<le> similarity_score a) ms \<and>
          (\<forall>k. filter (\<lambda>m. similarity_score m = k) ms =
                filter (\<lambda>m. similarity_score m = k)
                  (List.map_filter (match_resume cs jd) (resumes db)))"
proof -
  let ?un = "List.map_filter (match_resume cs jd) (resumes db)"
  let ?ms = "frontend_matching cs jd (resumes db)"
  have "sorted (map (\<lambda>m. - similarity_score m) ?ms)"
    by (simp add: frontend_matching_def)
  then have 1: "sorted_wrt (\<lambda>a b. similarity_score b \<le> similarity_score a) ?ms"
    by (simp add: sorted_map)
  have 2: "filter (\<lambda>m. similarity_score m = k) ?ms = filter (\<lambda>m. similarity_score m = k) ?un" for k
    using sort_key_stable[of "\<lambda>m. - similarity_score m" "- k" ?un]
    by (simp add: frontend_matching_def)
  show ?thesis using 1 2
    by (simp add: POST_fallback[OF assms(1-3)])
qed

text \<open>
  The theorem at two resumes of scores \<open>-100\<close> and \<open>100\<close>, stored in this order:
  the answer lists the second one first.
\<close>

theorem ranking_descending_stable_witness:
  "select_single (sample_env Http_not_ok None)
       (sample_db sample_jd [sample_resume ''b'' (Some [-1, 0]), sample_resume ''a'' (Some [1, 0])] [])
       ''jd-1'' = Inr sample_jd \<and>
   resumes_error (sample_env Http_not_ok None) = None \<and>
   backend (sample_env Http_not_ok None) = Http_not_ok \<and>
   (\<exists>ms. response (POST cosine_similarity (sample_env Http_not_ok None)
        (sample_db sample_jd [sample_resume ''b'' (Some [-1, 0]), sample_resume ''a'' (Some [1, 0])] [])
        ''jd-1'') = Json_results ms \<and>
      sorted_wrt (\<lambda>a b. similarity_score b \<le> similarity_score a) ms \<and>
      (\<forall>k. filter (\<lambda>m. similarity_score m = k) ms =
            filter (\<lambda>m. similarity_score m = k)
              (List.map_filter (match_resume cosine_similarity sample_jd)
                 [sample_resume ''b'' (Some [-1, 0]), sample_resume ''a'' (Some [1, 0])]))) \<and>
   map (json_id \<circ> resume) (result_list (response (POST cosine_similarity (sample_env Http_not_ok None)
        (sample_db sample_jd [sample_resume ''b'' (Some [-1, 0]), sample_resume ''a'' (Some [1, 0])] [])
        ''jd-1''))) = [''a'', ''b'']"
proof -
  let ?env = "sample_env Http_not_ok None"
  let ?db = "sample_db sample_jd [sample_resume ''b'' (Some [-1, 0]), sample_resume ''a'' (Some [1, 0])] []"
  have h: "select_single ?env ?db ''jd-1'' = Inr sample_jd"
    by (simp add: sample_select)
  have r: "resumes_error ?env = None" and b: "backend ?env = Http_not_ok"
    by simp_all
  have v: "map (json_id \<circ> resume) (result_list (response (POST cosine_similarity ?env ?db ''jd-1'')))
      = [''a'', ''b'']"
    by (simp add: sample_fallback sample_results result_list_def)
  note T = ranking_descending_stable[OF h r b, of cosine_similarity, unfolded sample_db_sel]
  show ?thesis
    using h r b v T by blast
qed

text \<open>
  C3 as stated fails: two resumes of equal score, stored with the id \<open>d\<close> before the id
  \<open>a\<close>, are answered in that order, not by ascending id.
\<close>

theorem ranking_ties_counterexample:
  "map (json_id \<circ> resume) (result_list (response (POST cosine_similarity (sample_env Http_not_ok None)
      (sample_db sample_jd [sample_resume ''d'' (Some [1, 0]), sample_resume ''a'' (Some [1, 0])] [])
      ''jd-1''))) = [''d'', ''a''] \<and>
   map similarity_score (result_list (response (POST cosine_similarity (sample_env Http_not_ok None)
      (sample_db sample_jd [sample_resume ''d'' (Some [1, 0]), sample_resume ''a'' (Some [1, 0])] [])
      ''jd-1''))) = [100, 100]"
  by (simp add: sample_fallback sample_results result_list_def)

subsection \<open>C4: matched skills\<close>




subsection \<open>C5: resumes without an embedding\<close>

text \<open>
  C5, as amended. A resume without an embedding does not abort the batch: when the job
  description has an embedding, the frontend path answers one result for each resume
  that has one. The resume without embedding is dropped without a report: answer,
  console and stored rows are those of a run on the table without such resumes.
\<close>

theorem missing_embedding_dropped_silently:
  "response (POST cs env (db\<lparr>resumes := filter (\<lambda>r. embedding r \<noteq> None) (resumes db)\<rparr>) jid)
     = response (POST cs env db jid) \<and>
   console (POST cs env (db\<lparr>resumes := filter (\<lambda>r. embedding r \<noteq> None) (resumes db)\<rparr>) jid)
     = console (POST cs env db jid) \<and>
   match_results (db_after (POST cs env (db\<lparr>resumes := filter (\<lambda>r. embedding r \<noteq> None) (resumes db)\<rparr>) jid))
     = match_results (db_after (POST cs env db jid)) \<and>
   (select_single env db jid = Inr jd \<and> resumes_error env = None \<and> backend env = Http_not_ok \<and>
    jd_embedding jd \<noteq> None \<longrightarrow>
      (\<exists>ms. response (POST cs env db jid) = Json_results ms \<and>
            resume ` set ms = Row ` {r \<in> set (resumes db). embedding r \<noteq> None} \<and>
            length ms = length (filter (\<lambda>r. embedding r \<noteq> None) (resumes db))))"
proof -
  have 4: "\<exists>ms. response (POST cs env db jid) = Json_results ms \<and>
            resume ` set ms = Row ` {r \<in> set (resumes db). embedding r \<noteq> None} \<and>
            length ms = length (filter (\<lambda>r. embedding r \<noteq> None) (resumes db))"
    if h: "select_single env db jid = Inr jd" "resumes_error env = None" "backend env = Http_not_ok"
       "jd_embedding jd \<noteq> None"
  proof -
    have some: "(match_resume cs jd r \<noteq> None) = (embedding r \<noteq> None)" for r
      using h(4) by (auto simp: match_resume_def Let_def split: option.splits)
    have res: "match_resume cs jd r \<noteq> None \<Longrightarrow> resume (the (match_resume cs jd r)) = Row r" for r
      using match_resume_SomeD[of cs jd r] by fastforce
    have "map (\<lambda>r. resume (the (match_resume cs jd r))) (filter (\<lambda>r. match_resume cs jd r \<noteq> None) (resumes db))
            = map Row (filter (\<lambda>r. match_resume cs jd r \<noteq> None) (resumes db))"
      by (rule map_cong) (simp_all add: res)
    then have m: "map resume (List.map_filter (match_resume cs jd) (resumes db))
            = map Row (filter (\<lambda>r. embedding r \<noteq> None) (resumes db))"
      unfolding map_filter_as_map some by (simp add: comp_def)
    have a: "resume ` set (frontend_matching cs jd (resumes db)) = Row ` {r \<in> set (resumes db). embedding r \<noteq> None}"
      using arg_cong[OF m, of set] by (simp add: frontend_matching_def)
    have b: "length (frontend_matching cs jd (resumes db)) = length (filter (\<lambda>r. embedding r \<noteq> None) (resumes db))"
      using arg_cong[OF m, of length] by (simp add: frontend_matching_def)
    show ?thesis using a b by (simp add: POST_fallback[OF h(1-3)])
  qed
  show ?thesis
    unfolding POST_without_missing_embeddings using 4 by simp
qed

text \<open>
  The theorem at a table of two resumes, the second without embedding.
\<close>

theorem missing_embedding_dropped_silently_witness:
  "select_single (sample_env Http_not_ok None)
       (sample_db sample_jd [sample_resume ''a'' (Some [1, 0]), sample_resume ''c'' None] []) ''jd-1''
     = Inr sample_jd \<and>
   resumes_error (sample_env Http_not_ok None) = None \<and>
   backend (sample_env Http_not_ok None) = Http_not_ok \<and>
   jd_embedding sample_jd \<noteq> None \<and>
   (\<exists>ms. response (POST cosine_similarity (sample_env Http_not_ok None)
             (sample_db sample_jd [sample_resume ''a'' (Some [1, 0]), sample_resume ''c'' None] []) ''jd-1'')
           = Json_results ms \<and>
         resume ` set ms = {Row (sample_resume ''a'' (Some [1, 0]))} \<and>
         length ms = 1) \<and>
   response (POST cosine_similarity (sample_env Http_not_ok None)
       (sample_db sample_jd [sample_resume ''a'' (Some [1, 0])] []) ''jd-1'')
     = response (POST cosine_similarity (sample_env Http_not_ok None)
       (sample_db sample_jd [sample_resume ''a'' (Some [1, 0]), sample_resume ''c'' None] []) ''jd-1'')"
proof -
  let ?env = "sample_env Http_not_ok None"
  let ?db = "sample_db sample_jd [sample_resume ''a'' (Some [1, 0]), sample_resume ''c'' None] []"
  have h: "select_single ?env ?db ''jd-1'' = Inr sample_jd"
    by (simp add: sample_select)
  have r: "resumes_error ?env = None" and b: "backend ?env = Http_not_ok"
    and e: "jd_embedding sample_jd \<noteq> None"
    by simp_all
  have s: "{r \<in> set (resumes ?db). embedding r \<noteq> None} = {sample_resume ''a'' (Some [1, 0])}"
    by auto
  note T = missing_embedding_dropped_silently[of cosine_similarity ?env ?db "''jd-1''" sample_jd]
  have 1: "\<exists>ms. response (POST cosine_similarity ?env ?db ''jd-1'') = Json_results ms \<and>
            resume ` set ms = Row ` {r \<in> set (resumes ?db). embedding r \<noteq> None} \<and>
            length ms = length (filter (\<lambda>r. embedding r \<noteq> None) (resumes ?db))"
    using T h r b e by blast
  have 2: "\<exists>ms. response (POST cosine_similarity ?env ?db ''jd-1'') = Json_results ms \<and>
         resume ` set ms = {Row (sample_resume ''a'' (Some [1, 0]))} \<and> length ms = 1"
    using 1 unfolding s by simp
  have 3: "response (POST cosine_similarity ?env
             (?db\<lparr>resumes := filter (\<lambda>r. embedding r \<noteq> None) (resumes ?db)\<rparr>) ''jd-1'')
           = response (POST cosine_similarity ?env ?db ''jd-1'')"
    using T by blast
  have 4: "response (POST cosine_similarity ?env
             (sample_db sample_jd [sample_resume ''a'' (Some [1, 0])] []) ''jd-1'')
           = response (POST cosine_similarity ?env ?db ''jd-1'')"
    using 3 by simp
  show ?thesis
    using h r b e 2 4 by blast
qed

text \<open>
  C5 as stated fails: with and without the resume \<open>c\<close>, which has no embedding, the
  handler gives the same answer, the same console output and the same stored rows, so
  nothing reports that \<open>c\<close> was left out.
\<close>

theorem missing_embedding_no_report_counterexample:
  "embedding (sample_resume ''c'' None) = None \<and>
   response (POST cosine_similarity (sample_env Http_not_ok None)
       (sample_db sample_jd [sample_resume ''a'' (Some [1, 0]), sample_resume ''c'' None] []) ''jd-1'')
     = response (POST cosine_similarity (sample_env Http_not_ok None)
       (sample_db sample_jd [sample_resume ''a'' (Some [1, 0])] []) ''jd-1'') \<and>
   console (POST cosine_similarity (sample_env Http_not_ok None)
       (sample_db sample_jd [sample_resume ''a'' (Some [1, 0]), sample_resume ''c'' None] []) ''jd-1'')
     = console (POST cosine_similarity (sample_env Http_not_ok None)
       (sample_db sample_jd [sample_resume ''a'' (Some [1, 0])] []) ''jd-1'') \<and>
   match_results (db_after (POST cosine_similarity (sample_env Http_not_ok None)
       (sample_db sample_jd [sample_resume ''a'' (Some [1, 0]), sample_resume ''c'' None] []) ''jd-1''))
     = match_results (db_after (POST cosine_similarity (sample_env Http_not_ok None)
       (sample_db sample_jd [sample_resume ''a'' (Some [1, 0])] []) ''jd-1'')) \<and>
   map (json_id \<circ> resume) (result_list (response (POST cosine_similarity (sample_env Http_not_ok None)
       (sample_db sample_jd [sample_resume ''a'' (Some [1, 0]), sample_resume ''c'' None] []) ''jd-1'')))
     = [''a'']"
  by (simp add: sample_fallback sample_results result_list_def)

subsection \<open>C6: which strategy answered\<close>

text \<open>
  C6, as amended. When the backend answers with a status that is not OK, the handler
  answers the results of the frontend matching and notes the fallback on the console
  only; when the backend answers with success, it answers the backend's results, scores
  unchanged, and writes no such note. Every result of one answer comes from the same
  path. The answer itself is the bare list of results in both cases.
\<close>

theorem fallback_logged_not_tagged:
  assumes "select_single env db jid = Inr jd" "resumes_error env = None"
  shows "(backend env = Http_not_ok \<longrightarrow>
            response (POST cs env db jid) = Json_results (frontend_matching cs jd (resumes db)) \<and>
            (\<forall>m\<in>set (frontend_matching cs jd (resumes db)).
                \<exists>r\<in>set (resumes db). match_resume cs jd r = Some m \<and> resume m = Row r) \<and>
            Console_warn ''Backend not available, using frontend matching''
              \<in> set (console (POST cs env db jid))) \<and>
         (\<forall>data. backend env = Http_ok data \<and> success data \<longrightarrow>
            response (POST cs env db jid) = Json_results (formattedResults (results data)) \<and>
            map similarity_score (formattedResults (results data)) = map similarity_score (results data) \<and>
            (\<forall>m\<in>set (formattedResults (results data)). \<exists>c. resume m = Formatted c) \<and>
            Console_warn ''Backend not available, using frontend matching''
              \<notin> set (console (POST cs env db jid)))"
proof (intro conjI impI allI)
  assume b: "backend env = Http_not_ok"
  note P = POST_fallback[OF assms b]
  show "response (POST cs env db jid) = Json_results (frontend_matching cs jd (resumes db))"
    by (simp add: P)
  show "Console_warn ''Backend not available, using frontend matching'' \<in> set (console (POST cs env db jid))"
    by (simp add: P)
  show "\<forall>m\<in>set (frontend_matching cs jd (resumes db)).
                \<exists>r\<in>set (resumes db). match_resume cs jd r = Some m \<and> resume m = Row r"
    using match_resume_SomeD[of cs jd] by (fastforce simp: set_frontend_matching)
next
  fix data assume "backend env = Http_ok data \<and> success data"
  then have d: "backend env = Http_ok data" "success data" by simp_all
  note P = POST_backend[OF assms d]
  show "response (POST cs env db jid) = Json_results (formattedResults (results data))"
    by (simp add: P)
  show "map similarity_score (formattedResults (results data)) = map similarity_score (results data)"
    by (simp add: formattedResults_def comp_def)
  show "\<forall>m\<in>set (formattedResults (results data)). \<exists>c. resume m = Formatted c"
    by (auto simp: formattedResults_def)
  show "Console_warn ''Backend not available, using frontend matching'' \<notin> set (console (POST cs env db jid))"
    by (simp add: P store_matches_eq split: option.split)
qed

text \<open>
  The theorem at a backend that is down and at a backend that answers one result.
\<close>

theorem fallback_logged_not_tagged_witness:
  "select_single (sample_env Http_not_ok None)
       (sample_db sample_jd [sample_resume ''a'' (Some [1, 0])] []) ''jd-1'' = Inr sample_jd \<and>
   resumes_error (sample_env Http_not_ok None) = None \<and>
   backend (sample_env Http_not_ok None) = Http_not_ok \<and>
   response (POST cosine_similarity (sample_env Http_not_ok None)
       (sample_db sample_jd [sample_resume ''a'' (Some [1, 0])] []) ''jd-1'')
     = Json_results (frontend_matching cosine_similarity sample_jd [sample_resume ''a'' (Some [1, 0])]) \<and>
   Console_warn ''Backend not available, using frontend matching''
     \<in> set (console (POST cosine_similarity (sample_env Http_not_ok None)
       (sample_db sample_jd [sample_resume ''a'' (Some [1, 0])] []) ''jd-1'')) \<and>
   map resume (frontend_matching cosine_similarity sample_jd [sample_resume ''a'' (Some [1, 0])])
     = [Row (sample_resume ''a'' (Some [1, 0]))] \<and>
   backend (sample_env (Http_ok (sample_data [sample_backend_result ''a'' 87])) None)
     = Http_ok (sample_data [sample_backend_result ''a'' 87]) \<and>
   success (sample_data [sample_backend_result ''a'' 87]) \<and>
   response (POST cosine_similarity (sample_env (Http_ok (sample_data [sample_backend_result ''a'' 87])) None)
       (sample_db sample_jd [sample_resume ''a'' (Some [1, 0])] []) ''jd-1'')
     = Json_results (formattedResults [sample_backend_result ''a'' 87]) \<and>
   map similarity_score (formattedResults [sample_backend_result ''a'' 87]) = [87] \<and>
   Console_warn ''Backend not available, using frontend matching''
     \<notin> set (console (POST cosine_similarity
        (sample_env (Http_ok (sample_data [sample_backend_result ''a'' 87])) None)
        (sample_db sample_jd [sample_resume ''a'' (Some [1, 0])] []) ''jd-1''))"
proof -
  let ?down = "sample_env Http_not_ok None"
  let ?data = "sample_data [sample_backend_result ''a'' 87]"
  let ?up = "sample_env (Http_ok ?data) None"
  let ?db = "sample_db sample_jd [sample_resume ''a'' (Some [1, 0])] []"
  have h1: "select_single ?down ?db ''jd-1'' = Inr sample_jd"
    and h2: "select_single ?up ?db ''jd-1'' = Inr sample_jd"
    by (simp_all add: sample_select)
  have r1: "resumes_error ?down = None" and r2: "resumes_error ?up = None"
    by simp_all
  have b1: "backend ?down = Http_not_ok"
    and b2: "backend ?up = Http_ok ?data \<and> success ?data"
    by simp_all
  note T1 = fallback_logged_not_tagged[OF h1 r1, of cosine_similarity, THEN conjunct1, rule_format, OF b1]
  note T2 = fallback_logged_not_tagged[OF h2 r2, of cosine_similarity, THEN conjunct2, rule_format, OF b2]
  have v: "map resume (frontend_matching cosine_similarity sample_jd [sample_resume ''a'' (Some [1, 0])])
     = [Row (sample_resume ''a'' (Some [1, 0]))]"
    by (simp add: sample_results)
  show ?thesis
    using h1 r1 b1 b2 v T1 T2 by simp
qed

text \<open>
  C6 as stated fails: a fallback run that finds no resume with an embedding and a backend
  run without results give the same answer, the empty list, so the answer does not tell
  which path produced it.
\<close>

theorem strategy_not_identified_counterexample:
  "response (POST cosine_similarity (sample_env Http_not_ok None)
       (sample_db sample_jd [sample_resume ''c'' None] []) ''jd-1'') = Json_results [] \<and>
   response (POST cosine_similarity (sample_env (Http_ok (sample_data [])) None)
       (sample_db sample_jd [sample_resume ''c'' None] []) ''jd-1'') = Json_results []"
  by (simp add: sample_fallback sample_backend sample_results formattedResults_def)

subsection \<open>C7: highlights\<close>

text \<open>
  C7. Every result of the frontend path has exactly three highlights, in this order:
  the years of experience of its resume (0 when unknown) followed by
  \<^verbatim>\<open> years of experience\<close>, the number of its matched skills followed by
  \<^verbatim>\<open> matching skills\<close>, and the education of the resume, or
  \<^verbatim>\<open>Education not specified\<close> when the education is null or empty.
\<close>

theorem highlights_three:
  assumes "select_single env db jid = Inr jd" "resumes_error env = None" "backend env = Http_not_ok"
  shows "\<exists>ms. response (POST cs env db jid) = Json_results ms \<and>
          (\<forall>m\<in>set ms. \<exists>r\<in>set (resumes db). resume m = Row r \<and>
             highlights m =
               [ show_int (case experience_years r of None \<Rightarrow> 0 | Some n \<Rightarrow> n) @ '' years of experience'',
                 show_nat (length (matched_skills m)) @ '' matching skills'',
                 (case education r of None \<Rightarrow> ''Education not specified''
                  | Some e \<Rightarrow> if e = [] then ''Education not specified'' else e) ])"
proof -
  have "\<exists>r\<in>set (resumes db). resume m = Row r \<and>
             highlights m =
               [ show_int (case experience_years r of None \<Rightarrow> 0 | Some n \<Rightarrow> n) @ '' years of experience'',
                 show_nat (length (matched_skills m)) @ '' matching skills'',
                 (case education r of None \<Rightarrow> ''Education not specified''
                  | Some e \<Rightarrow> if e = [] then ''Education not specified'' else e) ]"
    if "m \<in> set (frontend_matching cs jd (resumes db))" for m
  proof -
    from that obtain r where r: "r \<in> set (resumes db)" "match_resume cs jd r = Some m"
      by (auto simp: set_frontend_matching)
    from match_resume_SomeD[OF r(2)]
    have "resume m = Row r" "highlights m = make_highlights r (matched_skills m)"
      by auto
    then show ?thesis using r(1) by (auto simp: make_highlights_def)
  qed
  then show ?thesis
    by (simp add: POST_fallback[OF assms(1-3)])
qed

text \<open>
  The theorem at a resume with six years of experience, two matched skills and no
  education.
\<close>

theorem highlights_three_witness:
  "select_single (sample_env Http_not_ok None)
       (sample_db sample_jd [sample_resume ''a'' (Some [1, 0])] []) ''jd-1'' = Inr sample_jd \<and>
   resumes_error (sample_env Http_not_ok None) = None \<and>
   backend (sample_env Http_not_ok None) = Http_not_ok \<and>
   (\<exists>ms. response (POST cosine_similarity (sample_env Http_not_ok None)
             (sample_db sample_jd [sample_resume ''a'' (Some [1, 0])] []) ''jd-1'') = Json_results ms \<and>
          (\<forall>m\<in>set ms. \<exists>r\<in>set [sample_resume ''a'' (Some [1, 0])]. resume m = Row r \<and>
             highlights m =
               [ show_int (case experience_years r of None \<Rightarrow> 0 | Some n \<Rightarrow> n) @ '' years of experience'',
                 show_nat (length (matched_skills m)) @ '' matching skills'',
                 (case education r of None \<Rightarrow> ''Education not specified''
                  | Some e \<Rightarrow> if e = [] then ''Education not specified'' else e) ])) \<and>
   map highlights (result_list (response (POST cosine_similarity (sample_env Http_not_ok None)
             (sample_db sample_jd [sample_resume ''a'' (Some [1, 0])] []) ''jd-1'')))
     = [[''6 years of experience'', ''2 matching skills'', ''Education not specified'']]"
proof -
  let ?env = "sample_env Http_not_ok None"
  let ?db = "sample_db sample_jd [sample_resume ''a'' (Some [1, 0])] []"
  have h: "select_single ?env ?db ''jd-1'' = Inr sample_jd"
    by (simp add: sample_select)
  have r: "resumes_error ?env = None" and b: "backend ?env = Http_not_ok"
    by simp_all
  have v: "map highlights (result_list (response (POST cosine_similarity ?env ?db ''jd-1'')))
     = [[''6 years of experience'', ''2 matching skills'', ''Education not specified'']]"
    by (simp add: sample_fallback sample_results result_list_def)
  note T = highlights_three[OF h r b, of cosine_similarity, unfolded sample_db_sel]
  show ?thesis
    using h r b v T by blast
qed

subsection \<open>C8: job description not found\<close>

text \<open>
  C8. When no stored job description has the requested id, the handler answers the error
  \<^verbatim>\<open>Job description not found\<close> with status 404; it computes nothing, writes nothing on
  the console and leaves the database as it was.
\<close>

theorem jd_absent_not_found:
  "jobDescriptionId \<notin> jd_id ` set (job_descriptions db) \<Longrightarrow>
   POST cs env db jobDescriptionId =
     \<lparr> response = Json_error ''Job description not found'' 404, db_after = db, console = [] \<rparr>"
  using select_single_absent[of jobDescriptionId db env]
  by (auto simp: POST_def)

text \<open>
  The theorem at a request for \<open>jd-2\<close> when only \<open>jd-1\<close> is stored; the stored match
  result stays.
\<close>

theorem jd_absent_not_found_witness:
  "''jd-2'' \<notin> jd_id ` set (job_descriptions (sample_db sample_jd [sample_resume ''a'' (Some [1, 0])]
                                  [sample_row ''jd-2'' ''a'' True])) \<and>
   POST cosine_similarity (sample_env Http_not_ok None)
        (sample_db sample_jd [sample_resume ''a'' (Some [1, 0])] [sample_row ''jd-2'' ''a'' True]) ''jd-2'' =
     \<lparr> response = Json_error ''Job description not found'' 404,
       db_after = sample_db sample_jd [sample_resume ''a'' (Some [1, 0])] [sample_row ''jd-2'' ''a'' True],
       console = [] \<rparr>"
proof -
  have h: "''jd-2'' \<notin> jd_id ` set (job_descriptions (sample_db sample_jd [sample_resume ''a'' (Some [1, 0])]
                                  [sample_row ''jd-2'' ''a'' True]))"
    by simp
  show ?thesis
    using h jd_absent_not_found[OF h] by simp
qed

subsection \<open>C9: a failed insert\<close>

text \<open>
  C9, as amended. When the insert of the match results fails, the handler still answers
  the computed results, in both paths; the error is written on the console of the server
  and is not part of the answer, which is the answer of a run whose insert succeeds.
\<close>

theorem insert_error_logged_not_surfaced:
  assumes "select_single env db jid = Inr jd" "resumes_error env = None" "insert_error env = Some e"
  shows "response (POST cs env db jid) = response (POST cs (env\<lparr>insert_error := None\<rparr>) db jid) \<and>
         (backend env = Http_not_ok \<longrightarrow>
            response (POST cs env db jid) = Json_results (frontend_matching cs jd (resumes db)) \<and>
            console (POST cs env db jid) =
              [Console_warn ''Backend not available, using frontend matching'',
               Console_error ''Error storing match results:'' e]) \<and>
         (\<forall>data. backend env = Http_ok data \<and> success data \<longrightarrow>
            response (POST cs env db jid) = Json_results (formattedResults (results data)) \<and>
            console (POST cs env db jid) = [Console_error ''Error storing match results:'' e])"
proof (intro conjI impI allI)
  show "response (POST cs env db jid) = response (POST cs (env\<lparr>insert_error := None\<rparr>) db jid)"
    by (simp add: response_insert_error_irrelevant)
next
  assume b: "backend env = Http_not_ok"
  note P = POST_fallback[OF assms(1,2) b]
  show "response (POST cs env db jid) = Json_results (frontend_matching cs jd (resumes db))"
    by (simp add: P)
  show "console (POST cs env db jid) =
              [Console_warn ''Backend not available, using frontend matching'',
               Console_error ''Error storing match results:'' e]"
    by (simp add: P store_matches_eq insert_rows_error[OF assms(3)])
next
  fix data assume "backend env = Http_ok data \<and> success data"
  then have d: "backend env = Http_ok data" "success data" by simp_all
  note P = POST_backend[OF assms(1,2) d]
  show "response (POST cs env db jid) = Json_results (formattedResults (results data))"
    by (simp add: P)
  show "console (POST cs env db jid) = [Console_error ''Error storing match results:'' e]"
    by (simp add: P store_matches_eq insert_rows_error[OF assms(3)])
qed

text \<open>
  The theorem at a store that refuses the insert, in both paths.
\<close>

theorem insert_error_logged_not_surfaced_witness:
  "select_single (sample_env Http_not_ok (Some ''store unavailable''))
       (sample_db sample_jd [sample_resume ''a'' (Some [1, 0])] []) ''jd-1'' = Inr sample_jd \<and>
   resumes_error (sample_env Http_not_ok (Some ''store unavailable'')) = None \<and>
   insert_error (sample_env Http_not_ok (Some ''store unavailable'')) = Some ''store unavailable'' \<and>
   backend (sample_env Http_not_ok (Some ''store unavailable'')) = Http_not_ok \<and>
   response (POST cosine_similarity (sample_env Http_not_ok (Some ''store unavailable''))
       (sample_db sample_jd [sample_resume ''a'' (Some [1, 0])] []) ''jd-1'')
     = response (POST cosine_similarity (sample_env Http_not_ok None)
       (sample_db sample_jd [sample_resume ''a'' (Some [1, 0])] []) ''jd-1'') \<and>
   response (POST cosine_similarity (sample_env Http_not_ok (Some ''store unavailable''))
       (sample_db sample_jd [sample_resume ''a'' (Some [1, 0])] []) ''jd-1'')
     = Json_results (frontend_matching cosine_similarity sample_jd [sample_resume ''a'' (Some [1, 0])]) \<and>
   console (POST cosine_similarity (sample_env Http_not_ok (Some ''store unavailable''))
       (sample_db sample_jd [sample_resume ''a'' (Some [1, 0])] []) ''jd-1'')
     = [Console_warn ''Backend not available, using frontend matching'',
        Console_error ''Error storing match results:'' ''store unavailable''] \<and>
   backend (sample_env (Http_ok (sample_data [sample_backend_result ''a'' 87])) (Some ''store unavailable''))
     = Http_ok (sample_data [sample_backend_result ''a'' 87]) \<and>
   success (sample_data [sample_backend_result ''a'' 87]) \<and>
   response (POST cosine_similarity
       (sample_env (Http_ok (sample_data [sample_backend_result ''a'' 87])) (Some ''store unavailable''))
       (sample_db sample_jd [sample_resume ''a'' (Some [1, 0])] []) ''jd-1'')
     = Json_results (formattedResults [sample_backend_result ''a'' 87]) \<and>
   console (POST cosine_similarity
       (sample_env (Http_ok (sample_data [sample_backend_result ''a'' 87])) (Some ''store unavailable''))
       (sample_db sample_jd [sample_resume ''a'' (Some [1, 0])] []) ''jd-1'')
     = [Console_error ''Error storing match results:'' ''store unavailable'']"
proof -
  let ?down = "sample_env Http_not_ok (Some ''store unavailable'')"
  let ?data = "sample_data [sample_backend_result ''a'' 87]"
  let ?up = "sample_env (Http_ok ?data) (Some ''store unavailable'')"
  let ?db = "sample_db sample_jd [sample_resume ''a'' (Some [1, 0])] []"
  have h1: "select_single ?down ?db ''jd-1'' = Inr sample_jd"
    and h2: "select_single ?up ?db ''jd-1'' = Inr sample_jd"
    by (simp_all add: sample_select)
  have r1: "resumes_error ?down = None" and r2: "resumes_error ?up = None"
    by simp_all
  have i1: "insert_error ?down = Some ''store unavailable''"
    and i2: "insert_error ?up = Some ''store unavailable''"
    by simp_all
  have b1: "backend ?down = Http_not_ok"
    and b2: "backend ?up = Http_ok ?data \<and> success ?data"
    by simp_all
  note T = insert_error_logged_not_surfaced[OF h1 r1 i1, of cosine_similarity]
  note T0 = T[THEN conjunct1]
  note T1 = T[THEN conjunct2, THEN conjunct1, rule_format, OF b1]
  note T2 = insert_error_logged_not_surfaced[OF h2 r2 i2, of cosine_similarity,
               THEN conjunct2, THEN conjunct2, rule_format, OF b2]
  show ?thesis
    using h1 r1 i1 b1 b2 T0 T1 T2 by simp
qed

text \<open>
  C9 as stated fails: when the insert is refused, the caller gets the answer of a run
  whose insert succeeds, while the stored match of \<open>jd-1\<close> is gone.
\<close>

theorem insert_error_not_surfaced_counterexample:
  "response (POST cosine_similarity (sample_env Http_not_ok (Some ''store unavailable''))
       (sample_db sample_jd [sample_resume ''a'' (Some [1, 0])]
          [sample_row ''jd-1'' ''a'' True, sample_row ''jd-2'' ''a'' True]) ''jd-1'')
     = response (POST cosine_similarity (sample_env Http_not_ok None)
       (sample_db sample_jd [sample_resume ''a'' (Some [1, 0])]
          [sample_row ''jd-1'' ''a'' True, sample_row ''jd-2'' ''a'' True]) ''jd-1'') \<and>
   map similarity_score (result_list (response
     (POST cosine_similarity (sample_env Http_not_ok (Some ''store unavailable''))
       (sample_db sample_jd [sample_resume ''a'' (Some [1, 0])]
          [sample_row ''jd-1'' ''a'' True, sample_row ''jd-2'' ''a'' True]) ''jd-1''))) = [100] \<and>
   match_results (db_after
     (POST cosine_similarity (sample_env Http_not_ok (Some ''store unavailable''))
       (sample_db sample_jd [sample_resume ''a'' (Some [1, 0])]
          [sample_row ''jd-1'' ''a'' True, sample_row ''jd-2'' ''a'' True]) ''jd-1''))
     = [sample_row ''jd-2'' ''a'' True]"
  by (simp add: sample_fallback sample_results result_list_def sample_stored)

subsection \<open>C10: a job description without skills\<close>

text \<open>
  C10. In the frontend path, when the skills of the stored job description are null or
  the empty list, every result has no matched skills and its second highlight is
  \<^verbatim>\<open>0 matching skills\<close>, whatever the skills of the resume.
\<close>

theorem no_jd_skills:
  assumes "select_single env db jid = Inr jd" "resumes_error env = None" "backend env = Http_not_ok"
    and "jd_skills jd = None \<or> jd_skills jd = Some []"
  shows "\<exists>ms. response (POST cs env db jid) = Json_results ms \<and>
          (\<forall>m\<in>set ms. matched_skills m = [] \<and> highlights m ! 1 = ''0 matching skills'')"
proof -
  have "matched_skills m = [] \<and> highlights m ! 1 = ''0 matching skills''"
    if "m \<in> set (frontend_matching cs jd (resumes db))" for m
  proof -
    from that obtain r where "match_resume cs jd r = Some m"
      by (auto simp: set_frontend_matching)
    from match_resume_SomeD[OF this] assms(4)
    have ms: "matched_skills m = []" and hl: "highlights m = make_highlights r (matched_skills m)"
      by (auto simp: matchedSkills_def)
    show ?thesis using ms hl by (simp add: make_highlights_def show_nat_0)
  qed
  then show ?thesis
    by (simp add: POST_fallback[OF assms(1-3)])
qed

text \<open>
  The theorem at the sample job description with its skills set to null and a resume
  with three skills.
\<close>

theorem no_jd_skills_witness:
  "select_single (sample_env Http_not_ok None)
       (sample_db (sample_jd\<lparr>jd_skills := None\<rparr>) [sample_resume ''a'' (Some [1, 0])] []) ''jd-1''
     = Inr (sample_jd\<lparr>jd_skills := None\<rparr>) \<and>
   resumes_error (sample_env Http_not_ok None) = None \<and>
   backend (sample_env Http_not_ok None) = Http_not_ok \<and>
   jd_skills (sample_jd\<lparr>jd_skills := None\<rparr>) = None \<and>
   (\<exists>ms. response (POST cosine_similarity (sample_env Http_not_ok None)
             (sample_db (sample_jd\<lparr>jd_skills := None\<rparr>) [sample_resume ''a'' (Some [1, 0])] []) ''jd-1'')
           = Json_results ms \<and>
         (\<forall>m\<in>set ms. matched_skills m = [] \<and> highlights m ! 1 = ''0 matching skills'')) \<and>
   map highlights (result_list (response (POST cosine_similarity (sample_env Http_not_ok None)
             (sample_db (sample_jd\<lparr>jd_skills := None\<rparr>) [sample_resume ''a'' (Some [1, 0])] []) ''jd-1'')))
     = [[''6 years of experience'', ''0 matching skills'', ''Education not specified'']]"
proof -
  let ?env = "sample_env Http_not_ok None"
  let ?jd = "sample_jd\<lparr>jd_skills := None\<rparr>"
  let ?db = "sample_db ?jd [sample_resume ''a'' (Some [1, 0])] []"
  have h: "select_single ?env ?db ''jd-1'' = Inr ?jd"
    by (simp add: sample_select)
  have r: "resumes_error ?env = None" and b: "backend ?env = Http_not_ok"
    by simp_all
  have k: "jd_skills ?jd = None \<or> jd_skills ?jd = Some []"
    by simp
  have v: "map highlights (result_list (response (POST cosine_similarity ?env ?db ''jd-1'')))
     = [[''6 years of experience'', ''0 matching skills'', ''Education not specified'']]"
    by (simp add: sample_fallback sample_results result_list_def)
  note T = no_jd_skills[OF h r b k, of cosine_similarity]
  show ?thesis
    using h r b v T by simp
qed

end
